theory Spec2Isabelle
  imports Main "HOL-Library.List_Lexorder"
begin

section \<open>Python strings\<close>

text \<open>
  A Python \<open>str\<close> is a sequence of Unicode code points. Task texts and announcement
  messages are user data and contain Cyrillic letters and an emoji, so a text is modelled
  as the list of its code points; the status and column names the program writes as
  literals are plain ASCII and are modelled as \<open>string\<close>.
\<close>

type_synonym pystr = "nat list"

definition ascii :: "string \<Rightarrow> pystr" where
  "ascii s = map of_char s"

text \<open>\<open>str.isspace\<close> for one code point: the characters \<open>str.strip()\<close> removes.\<close>

definition py_isspace :: "nat \<Rightarrow> bool" where
  "py_isspace c \<longleftrightarrow>
     (9 \<le> c \<and> c \<le> 13) \<or> (28 \<le> c \<and> c \<le> 32) \<or> c = 133 \<or> c = 160 \<or> c = 5760 \<or>
     (8192 \<le> c \<and> c \<le> 8202) \<or> c = 8232 \<or> c = 8233 \<or> c = 8239 \<or> c = 8287 \<or> c = 12288"

definition py_strip :: "pystr \<Rightarrow> pystr" where
  "py_strip s = rev (dropWhile py_isspace (rev (dropWhile py_isspace s)))"

fun startswith :: "pystr \<Rightarrow> pystr \<Rightarrow> bool" where
  "startswith s [] = True"
| "startswith [] (p # ps) = False"
| "startswith (c # s) (p # ps) = (c = p \<and> startswith s ps)"

text \<open>\<open>s.find(sub)\<close>: the index of the first occurrence, \<open>None\<close> for Python's -1.\<close>

fun py_find :: "pystr \<Rightarrow> pystr \<Rightarrow> nat option" where
  "py_find [] sub = (if sub = [] then Some 0 else None)"
| "py_find (c # s) sub =
     (if startswith (c # s) sub then Some 0 else map_option Suc (py_find s sub))"

text \<open>\<open>sub in s\<close>.\<close>

definition py_in :: "pystr \<Rightarrow> pystr \<Rightarrow> bool" where
  "py_in sub s = (py_find s sub \<noteq> None)"

text \<open>\<open>s.split(sep, 1)\<close> for a non-empty separator: one part when \<open>sep\<close> does not
  occur, two parts cut at its first occurrence otherwise.\<close>

definition py_split1 :: "pystr \<Rightarrow> pystr \<Rightarrow> pystr list" where
  "py_split1 s sep =
     (case py_find s sep of
        None \<Rightarrow> [s]
      | Some i \<Rightarrow> [take i s, drop (i + length sep) s])"

text \<open>\<open>s.split(sep)\<close> and \<open>sep.join(parts)\<close> for a separator \<open>sep\<close> of one
  character; the line feed is code point 10, the comma 44 and the colon 58.\<close>

fun py_split :: "nat \<Rightarrow> pystr \<Rightarrow> pystr list" where
  "py_split sep [] = [[]]"
| "py_split sep (c # s) =
     (if c = sep then [] # py_split sep s
      else (case py_split sep s of
              [] \<Rightarrow> [[c]]
            | l # ls \<Rightarrow> (c # l) # ls))"

fun py_join :: "nat \<Rightarrow> pystr list \<Rightarrow> pystr" where
  "py_join sep [] = []"
| "py_join sep [l] = l"
| "py_join sep (l # ls) = l @ sep # py_join sep ls"

text \<open>\<open>str.upper()\<close> for one code point of an ASCII text (the statements the program
  sends to the database are ASCII), and the test
  \<open>query.strip().upper().startswith("SELECT")\<close> of \<open>execute_query\<close>.\<close>

definition py_upper :: "nat \<Rightarrow> nat" where
  "py_upper c = (if 97 \<le> c \<and> c \<le> 122 then c - 32 else c)"

definition starts_with_select :: "pystr \<Rightarrow> bool" where
  "starts_with_select query = startswith (map py_upper (py_strip query)) (ascii ''SELECT'')"

text \<open>The three literals of \<open>bot.py\<close> that the reply handlers look for: the
  announcement prefix of \<open>send_task_to_chat\<close> (a memo emoji, a space, the Russian for
  ``New task:''), the header of a task block in the task list (``Task No.'') and the
  header of its recipient section (``Recipients:'').\<close>

definition new_task_marker :: pystr where
  "new_task_marker =
     [128221, 32, 1053, 1086, 1074, 1086, 1077, 32, 1079, 1072, 1076, 1072, 1085, 1080, 1077, 58]"

definition task_no_marker :: pystr where
  "task_no_marker = [128221, 32, 1047, 1072, 1076, 1072, 1085, 1080, 1077, 32, 8470]"

definition recipients_marker :: pystr where
  "recipients_marker = [1055, 1086, 1083, 1091, 1095, 1072, 1090, 1077, 1083, 1080, 58]"


section \<open>The relational store\<close>

text \<open>
  The tables of \<open>Database.init_database\<close> (database.py:17-111). A table is the list of
  its rows in the order a full scan returns them (insertion order for the tables the bot
  appends to). Columns that no statement modelled below reads (\<open>added_at\<close> of a chat,
  \<open>created_at\<close> of a group, the row ids and timestamps of the two media tables) are left
  out. \<open>chat_id\<close> and \<open>group_id\<close> of a recipient row are nullable, as
  \<open>add_task_recipient\<close> passes \<open>None\<close> by default.
\<close>

record chat =
  c_chat_id :: int
  c_title :: pystr
  c_is_group :: bool

record chat_group =
  cg_id :: int
  cg_name :: pystr

record group_chat =
  gc_group_id :: int
  gc_chat_id :: int

record task =
  t_id :: int
  t_text :: pystr
  t_status :: string
  t_created_by :: int
  t_created_at :: nat

record task_recipient =
  tr_task_id :: int
  tr_chat_id :: "int option"
  tr_group_id :: "int option"
  tr_status :: string

record task_media =
  tm_task_id :: int
  tm_file_id :: pystr
  tm_file_type :: string

record response_media =
  rm_task_id :: int
  rm_chat_id :: int
  rm_file_id :: pystr
  rm_file_type :: string

text \<open>
  \<open>tasks_seq\<close> is the \<open>sqlite_sequence\<close> entry behind \<open>tasks.id INTEGER PRIMARY KEY
  AUTOINCREMENT\<close>. \<open>CREATE TABLE IF NOT EXISTS\<close> keeps the table of an existing
  database file as it is, so the columns of a table belong to the stored state:
  \<open>task_recipients_extra_columns\<close> lists the columns that the \<open>task_recipients\<close> table
  of the file has beyond the four that \<open>init_database\<close> declares (\<open>task_id\<close>,
  \<open>chat_id\<close>, \<open>group_id\<close>, \<open>status\<close>); a file created by \<open>init_database\<close> has
  none. Foreign keys are declared but SQLite does not enforce them unless
  \<open>PRAGMA foreign_keys\<close> is switched on, which the program never does.
\<close>

record database =
  chats :: "chat list"
  chat_groups :: "chat_group list"
  group_chats :: "group_chat list"
  tasks :: "task list"
  tasks_seq :: int
  task_recipients :: "task_recipient list"
  task_recipients_extra_columns :: "string list"
  task_media :: "task_media list"
  response_media :: "response_media list"

text \<open>\<open>init_database\<close> on a file that does not exist yet (\<open>None\<close>) creates the
  seven empty tables; on an existing file every \<open>CREATE TABLE IF NOT EXISTS\<close> is a
  no-op.\<close>

definition init_database :: "database option \<Rightarrow> database" where
  "init_database file =
     (case file of
        Some d \<Rightarrow> d
      | None \<Rightarrow>
          \<lparr>chats = [], chat_groups = [], group_chats = [], tasks = [], tasks_seq = 0,
           task_recipients = [],
           task_recipients_extra_columns = [],
           task_media = [], response_media = []\<rparr>)"

text \<open>
  The exceptions of the modelled code. \<open>StorageError\<close> stands for any
  \<open>sqlite3.Error\<close> that does not depend on the stored data (the file cannot be opened,
  is locked, a write or the commit fails); which statement meets one is decided by a
  fault oracle \<open>flt\<close>: \<open>flt i\<close> says that the \<open>i\<close>-th database step of the
  operation (in program order, from 0) raises.
\<close>

datatype error = StorageError | NoSuchColumn | IntegrityError | ValueError

type_synonym faults = "nat \<Rightarrow> bool"

definition no_fault :: faults where
  "no_fault = (\<lambda>i. False)"

subsection \<open>The statements of the completion sequence\<close>

text \<open>\<open>UPDATE task_recipients SET status = ? WHERE task_id = ? AND chat_id = ?\<close>\<close>

definition update_recipient_status :: "string \<Rightarrow> int \<Rightarrow> int \<Rightarrow> database \<Rightarrow> database" where
  "update_recipient_status status task_id chat_id d =
     d\<lparr>task_recipients :=
          map (\<lambda>tr. if tr_task_id tr = task_id \<and> tr_chat_id tr = Some chat_id
                     then tr\<lparr>tr_status := status\<rparr> else tr)
            (task_recipients d)\<rparr>"

text \<open>\<open>SELECT COUNT(*), SUM(CASE WHEN status = 'completed' THEN 1 ELSE 0 END) FROM
  task_recipients WHERE task_id = ?\<close>; \<open>SUM\<close> over no rows is \<open>NULL\<close>.\<close>

definition count_recipients :: "int \<Rightarrow> database \<Rightarrow> nat \<times> nat option" where
  "count_recipients task_id d =
     (let rows = filter (\<lambda>tr. tr_task_id tr = task_id) (task_recipients d)
      in (length rows,
          if rows = [] then None
          else Some (length (filter (\<lambda>tr. tr_status tr = ''completed'') rows))))"

text \<open>\<open>UPDATE tasks SET status = 'completed' WHERE id = ?\<close>\<close>

definition set_task_completed :: "int \<Rightarrow> database \<Rightarrow> database" where
  "set_task_completed task_id d =
     d\<lparr>tasks := map (\<lambda>t. if t_id t = task_id then t\<lparr>t_status := ''completed''\<rparr> else t)
                    (tasks d)\<rparr>"

text \<open>
  The three statements that \<open>handle_message\<close> (bot.py:241-261),
  \<open>handle_media_message\<close> (bot.py:476-496) and \<open>update_task_status\<close>
  (database.py:300-329) each run inside their transaction: mark the recipient, recount,
  and close the task when \<open>total == completed\<close>. The result is the uncommitted
  state, or \<open>None\<close> when one of the three statements raised.
\<close>

definition mark_and_recount ::
    "faults \<Rightarrow> string \<Rightarrow> int \<Rightarrow> int \<Rightarrow> database \<Rightarrow> database option" where
  "mark_and_recount flt status task_id chat_id d =
     (if flt 0 then None
      else
        let d1 = update_recipient_status status task_id chat_id d in
        if flt 1 then None
        else
          let stats = count_recipients task_id d1 in
          if Some (fst stats) = snd stats
          then (if flt 2 then None else Some (set_task_completed task_id d1))
          else Some d1)"

subsection \<open>\<open>Database.update_task_status\<close> (database.py:271-341)\<close>

text \<open>
  The lookup \<open>SELECT tr.id, tr.status, t.text FROM task_recipients tr JOIN tasks t ON
  tr.task_id = t.id WHERE t.id = ? AND tr.chat_id = ? AND t.status = 'active' AND
  tr.status != 'completed'\<close> names a column \<open>id\<close> of \<open>task_recipients\<close>, which is
  not one of the four columns of \<open>init_database\<close>. SQLite resolves column names when
  it prepares the statement and raises \<open>OperationalError: no such column\<close> when the
  table has none of that name.
\<close>

definition select_pending_recipient ::
    "int \<Rightarrow> int \<Rightarrow> database \<Rightarrow> error + (string \<times> pystr) list" where
  "select_pending_recipient task_id chat_id d =
     (if ''id'' \<notin> set (task_recipients_extra_columns d) then Inl NoSuchColumn
      else Inr [(tr_status tr, t_text t).
                  tr \<leftarrow> task_recipients d, t \<leftarrow> tasks d,
                  tr_task_id tr = t_id t \<and> t_id t = task_id \<and> tr_chat_id tr = Some chat_id \<and>
                  t_status t = ''active'' \<and> tr_status tr \<noteq> ''completed''])"

text \<open>
  Database steps: 0 connect and \<open>BEGIN\<close>, 1 the lookup, 2-4 the completion sequence,
  5 the commit. Every exception is answered by \<open>conn.rollback()\<close> and re-raised, so the
  stored state is the one before the call; a lookup without a row is logged, rolled back
  and answered by a plain \<open>return\<close>.
\<close>

definition update_task_status ::
    "faults \<Rightarrow> int \<Rightarrow> int \<Rightarrow> string \<Rightarrow> database \<Rightarrow> (error + unit) \<times> database" where
  "update_task_status flt task_id chat_id status d =
     (if flt 0 \<or> flt 1 then (Inl StorageError, d)
      else
        case select_pending_recipient task_id chat_id d of
          Inl e \<Rightarrow> (Inl e, d)
        | Inr [] \<Rightarrow> (Inr (), d)
        | Inr (task_recipient # _) \<Rightarrow>
            (case mark_and_recount (\<lambda>i. flt (i + 2)) status task_id chat_id d of
               None \<Rightarrow> (Inl StorageError, d)
             | Some d' \<Rightarrow> if flt 5 then (Inl StorageError, d) else (Inr (), d')))"


subsection \<open>\<open>Database.execute_query\<close> (database.py:113-138) and its callers\<close>

text \<open>
  \<open>execute_query\<close> opens a connection of its own (\<open>sqlite3.connect\<close>) and runs one
  statement. When the text of the statement, stripped and in upper case, starts with
  \<open>SELECT\<close>, the result is the list of the rows and nothing is committed; otherwise the
  function commits and the result is \<open>None\<close>, whatever rows the statement has. Then the
  connection is closed; on an exception the function rolls back and re-raises.

  A query is the text of the statement together with what the statement does on its
  connection: it gets the connection's \<open>last_insert_rowid()\<close> and the stored state, and
  raises or gives its rows and the new state. The connection is new in every call, and
  \<open>last_insert_rowid()\<close> of a connection that has not inserted anything is 0.
\<close>

type_synonym 'r statement = "int \<Rightarrow> database \<Rightarrow> error + 'r list \<times> database"

type_synonym 'r query = "pystr \<times> 'r statement"

definition execute_query ::
    "bool \<Rightarrow> 'r query \<Rightarrow> database \<Rightarrow> (error + 'r list option) \<times> database" where
  "execute_query fails query d =
     (if fails then (Inl StorageError, d)
      else
        case snd query 0 d of
          Inl e \<Rightarrow> (Inl e, d)
        | Inr (rows, d') \<Rightarrow>
            if starts_with_select (fst query) then (Inr (Some rows), d)
            else (Inr None, d'))"

text \<open>
  \<open>INSERT INTO tasks (text, created_by, status) VALUES (?, ?, 'active')\<close>. The id of an
  \<open>AUTOINCREMENT\<close> column is one more than the largest id the table has ever held;
  \<open>created_at\<close> defaults to the current time \<open>now\<close>.
\<close>

definition insert_task_sql :: pystr where
  "insert_task_sql =
     ascii ''INSERT INTO tasks (text, created_by, status) VALUES (?, ?, 'active')''"

definition insert_task :: "pystr \<Rightarrow> int \<Rightarrow> nat \<Rightarrow> unit query" where
  "insert_task text created_by now =
     (insert_task_sql,
      \<lambda>last_rowid d.
        let new_id = fold max (map t_id (tasks d)) (tasks_seq d) + 1
        in Inr ([], d\<lparr>tasks := tasks d @
                         [\<lparr>t_id = new_id, t_text = text, t_status = ''active'',
                           t_created_by = created_by, t_created_at = now\<rparr>],
                       tasks_seq := new_id\<rparr>))"

text \<open>\<open>SELECT last_insert_rowid() as id\<close>\<close>

definition select_last_insert_rowid_sql :: pystr where
  "select_last_insert_rowid_sql = ascii ''SELECT last_insert_rowid() as id''"

definition select_last_insert_rowid :: "int query" where
  "select_last_insert_rowid =
     (select_last_insert_rowid_sql, \<lambda>last_rowid d. Inr ([last_rowid], d))"

text \<open>
  \<open>create_task\<close> (database.py:235-257): two calls of \<open>execute_query\<close>, hence two
  connections; \<open>flt 0\<close> and \<open>flt 1\<close> are their storage faults. \<open>if not result\<close>
  holds for \<open>None\<close> and for the empty list. The function checks nothing about
  \<open>text\<close>.
\<close>

definition create_task :: "faults \<Rightarrow> nat \<Rightarrow> pystr \<Rightarrow> int \<Rightarrow> database \<Rightarrow> (error + int) \<times> database" where
  "create_task flt now text created_by d =
     (case execute_query (flt 0) (insert_task text created_by now) d of
        (Inl e, d1) \<Rightarrow> (Inl e, d1)
      | (Inr u, d1) \<Rightarrow>
          (case execute_query (flt 1) select_last_insert_rowid d1 of
             (Inl e, d2) \<Rightarrow> (Inl e, d2)
           | (Inr None, d2) \<Rightarrow> (Inl ValueError, d2)
           | (Inr (Some []), d2) \<Rightarrow> (Inl ValueError, d2)
           | (Inr (Some (row # rows)), d2) \<Rightarrow> (Inr row, d2)))"

text \<open>
  \<open>INSERT INTO task_recipients (task_id, chat_id, group_id) VALUES (?, ?, ?)\<close>; the
  status defaults to \<open>'pending'\<close>. \<open>PRIMARY KEY (task_id, chat_id)\<close> refuses a second
  row for the pair; a \<open>NULL\<close> chat id never collides.
\<close>

definition insert_task_recipient_sql :: pystr where
  "insert_task_recipient_sql =
     ascii ''INSERT INTO task_recipients (task_id, chat_id, group_id) VALUES (?, ?, ?)''"

definition insert_task_recipient :: "int \<Rightarrow> int option \<Rightarrow> int option \<Rightarrow> unit query" where
  "insert_task_recipient task_id chat_id group_id =
     (insert_task_recipient_sql,
      \<lambda>last_rowid d.
        if chat_id \<noteq> None \<and>
           list_ex (\<lambda>tr. tr_task_id tr = task_id \<and> tr_chat_id tr = chat_id) (task_recipients d)
        then Inl IntegrityError
        else Inr ([], d\<lparr>task_recipients := task_recipients d @
                         [\<lparr>tr_task_id = task_id, tr_chat_id = chat_id, tr_group_id = group_id,
                           tr_status = ''pending''\<rparr>]\<rparr>))"

text \<open>\<open>add_task_recipient\<close> (database.py:259-269); the result of \<open>execute_query\<close> is
  dropped.\<close>

definition add_task_recipient ::
    "bool \<Rightarrow> int \<Rightarrow> int option \<Rightarrow> int option \<Rightarrow> database \<Rightarrow> (error + unit) \<times> database" where
  "add_task_recipient fails task_id chat_id group_id d =
     (case execute_query fails (insert_task_recipient task_id chat_id group_id) d of
        (Inl e, d') \<Rightarrow> (Inl e, d')
      | (Inr result, d') \<Rightarrow> (Inr (), d'))"

text \<open>\<open>get_group_chats\<close> (database.py:145-152): the text of its statement, a
  triple-quoted literal of five lines, and the join; the function returns
  \<open>result if result is not None else []\<close>.\<close>

definition get_group_chats_sql :: pystr where
  "get_group_chats_sql = py_join 10
     [[],
      ascii ''            SELECT c.* FROM chats c'',
      ascii ''            JOIN group_chats gc ON c.chat_id = gc.chat_id'',
      ascii ''            WHERE gc.group_id = ?'',
      ascii ''        '']"

definition select_group_chats :: "int \<Rightarrow> chat query" where
  "select_group_chats group_id =
     (get_group_chats_sql,
      \<lambda>last_rowid d.
        Inr ([c. c \<leftarrow> chats d, gc \<leftarrow> group_chats d,
                 c_chat_id c = gc_chat_id gc \<and> gc_group_id gc = group_id], d))"

definition get_group_chats :: "bool \<Rightarrow> int \<Rightarrow> database \<Rightarrow> (error + chat list) \<times> database" where
  "get_group_chats fails group_id d =
     (case execute_query fails (select_group_chats group_id) d of
        (Inl e, d') \<Rightarrow> (Inl e, d')
      | (Inr None, d') \<Rightarrow> (Inr [], d')
      | (Inr (Some result), d') \<Rightarrow> (Inr result, d'))"


subsection \<open>\<open>Database.get_active_tasks\<close> (database.py:154-233)\<close>

text \<open>A row of the query: the columns of \<open>task_info\<close> that the function reads and the
  two \<open>GROUP_CONCAT\<close> columns, which are \<open>NULL\<close> when nothing was concatenated.\<close>

record active_row =
  r_id :: int
  r_text :: pystr
  r_created_at :: nat
  r_chat_title :: pystr
  r_recipient_status :: string
  r_chat_id :: int
  r_group_name :: "pystr option"
  r_task_media :: "pystr option"
  r_response_media :: "pystr option"

text \<open>A \<open>LEFT JOIN\<close> keeps a row without a partner, with \<open>NULL\<close> for the partner.\<close>

definition left_join :: "'a list \<Rightarrow> 'a option list" where
  "left_join partners = (if partners = [] then [None] else map Some partners)"

text \<open>\<open>GROUP_CONCAT(DISTINCT x)\<close>: the distinct values joined by commas.\<close>

definition group_concat :: "pystr list \<Rightarrow> pystr option" where
  "group_concat values = (if values = [] then None else Some (py_join 44 (remdups values)))"

text \<open>
  The text of the query of \<open>get_active_tasks\<close> (database.py:157-183), a triple-quoted
  literal: it begins with a line feed and the indentation of the source, and its first
  word is \<open>WITH\<close>. Code point 39 is the apostrophe.
\<close>

definition get_active_tasks_sql :: pystr where
  "get_active_tasks_sql = py_join 10
     [[],
      ascii ''                WITH task_info AS ('',
      ascii ''                    SELECT DISTINCT'',
      ascii ''                        t.id,'',
      ascii ''                        t.text,'',
      ascii ''                        t.created_at,'',
      ascii ''                        c.title as chat_title,'',
      ascii ''                        tr.status as recipient_status,'',
      ascii ''                        c.chat_id,'',
      ascii ''                        cg.name as group_name,'',
      ascii ''                        t.status as task_status'',
      ascii ''                    FROM tasks t'',
      ascii ''                    JOIN task_recipients tr ON t.id = tr.task_id'',
      ascii ''                    JOIN chats c ON tr.chat_id = c.chat_id'',
      ascii ''                    LEFT JOIN chat_groups cg ON tr.group_id = cg.id'',
      ascii ''                    WHERE t.status = 'active'' @ [39],
      ascii ''                )'',
      ascii ''                SELECT '',
      ascii ''                    ti.*,'',
      ascii ''                    GROUP_CONCAT(DISTINCT tm.file_id || ':' || tm.file_type) as task_media,'',
      ascii ''                    GROUP_CONCAT(DISTINCT rm.file_id || ':' || rm.file_type) as response_media'',
      ascii ''                FROM task_info ti'',
      ascii ''                LEFT JOIN task_media tm ON ti.id = tm.task_id'',
      ascii ''                LEFT JOIN response_media rm ON ti.id = rm.task_id AND ti.chat_id = rm.chat_id'',
      ascii ''                GROUP BY ti.id, ti.chat_id'',
      ascii ''                ORDER BY ti.created_at DESC, ti.chat_title ASC'',
      ascii ''            '']"

text \<open>
  The rows of the query: the active tasks joined with their recipients and
  the recipients' chats (\<open>SELECT DISTINCT\<close>), one row per \<open>(id, chat_id)\<close> group with
  the media of the task and of the answer concatenated as \<open>file_id:file_type\<close>, ordered
  by \<open>created_at DESC, chat_title ASC\<close>. The columns outside the \<open>GROUP BY\<close> are read
  from the first row of the group. \<open>execute_query\<close> does not fetch these rows, since
  the text of the query does not start with \<open>SELECT\<close>.
\<close>

definition active_task_rows :: "active_row statement" where
  "active_task_rows last_rowid d =
     (let task_info = remdups
            [(t_id t, t_text t, t_created_at t, c_title c, tr_status tr, c_chat_id c,
              map_option cg_name cg).
               t \<leftarrow> tasks d, tr \<leftarrow> task_recipients d, c \<leftarrow> chats d,
               cg \<leftarrow> left_join [g. g \<leftarrow> chat_groups d, tr_group_id tr = Some (cg_id g)],
               t_id t = tr_task_id tr \<and> tr_chat_id tr = Some (c_chat_id c) \<and>
               t_status t = ''active''];
          key = (\<lambda>(task_id, text, created_at, chat_title, status, chat_id, group_name). (task_id, chat_id));
          grouped =
            [\<lparr>r_id = task_id, r_text = text, r_created_at = created_at, r_chat_title = chat_title,
              r_recipient_status = status, r_chat_id = chat_id, r_group_name = group_name,
              r_task_media =
                group_concat [tm_file_id m @ 58 # ascii (tm_file_type m).
                                m \<leftarrow> task_media d, tm_task_id m = task_id],
              r_response_media =
                group_concat [rm_file_id m @ 58 # ascii (rm_file_type m).
                                m \<leftarrow> response_media d, rm_task_id m = task_id \<and> rm_chat_id m = chat_id]\<rparr>.
               k \<leftarrow> remdups (map key task_info),
               (task_id, text, created_at, chat_title, status, chat_id, group_name) \<leftarrow>
                 take 1 (filter (\<lambda>ti. key ti = k) task_info)]
      in Inr (sort_key (\<lambda>r. - int (r_created_at r)) (sort_key r_chat_title grouped), d))"

definition select_active_task_info :: "active_row query" where
  "select_active_task_info = (get_active_tasks_sql, active_task_rows)"

text \<open>What the function builds: per task its text, creation time, recipients and media;
  a Python \<open>dict\<close> keeps its keys in insertion order and is modelled by an association
  list.\<close>

record recipient_info =
  ri_chat_title :: pystr
  ri_status :: string
  ri_group_name :: "pystr option"
  ri_media :: "(pystr \<times> pystr) list"

record task_snapshot =
  s_text :: pystr
  s_created_at :: nat
  s_recipients :: "(int \<times> recipient_info) list"
  s_media :: "(pystr \<times> pystr) list"

text \<open>
  \<open>for media_info in column.split(','): file_id, file_type = media_info.split(':')\<close>,
  guarded by \<open>if column:\<close>. The unpacking raises \<open>ValueError\<close> (here \<open>None\<close>) unless
  the piece has exactly two parts.
\<close>

definition parse_media :: "pystr option \<Rightarrow> (pystr \<times> pystr) list option" where
  "parse_media column =
     (case column of
        None \<Rightarrow> Some []
      | Some s \<Rightarrow>
          if s = [] then Some []
          else those (map (\<lambda>media_info.
                             case py_split 58 media_info of
                               [file_id, file_type] \<Rightarrow> Some (file_id, file_type)
                             | _ \<Rightarrow> None)
                        (py_split 44 s)))"

text \<open>One round of the grouping loop (database.py:189-216).\<close>

definition group_row ::
    "active_row \<Rightarrow> (int \<times> task_snapshot) list \<Rightarrow> (int \<times> task_snapshot) list option" where
  "group_row row tasks_grouped =
     (case (if map_of tasks_grouped (r_id row) = None
            then map_option
                   (\<lambda>media. tasks_grouped @
                      [(r_id row, \<lparr>s_text = r_text row, s_created_at = r_created_at row,
                                   s_recipients = [], s_media = media\<rparr>)])
                   (parse_media (r_task_media row))
            else Some tasks_grouped) of
        None \<Rightarrow> None
      | Some g \<Rightarrow>
          if list_ex (\<lambda>(task_id, snap). task_id = r_id row \<and>
                        map_of (s_recipients snap) (r_chat_id row) \<noteq> None) g
          then Some g
          else map_option
                 (\<lambda>media.
                    map (\<lambda>(task_id, snap).
                           if task_id = r_id row
                           then (task_id, snap\<lparr>s_recipients := s_recipients snap @
                                   [(r_chat_id row,
                                     \<lparr>ri_chat_title = r_chat_title row,
                                      ri_status = r_recipient_status row,
                                      ri_group_name = r_group_name row, ri_media = media\<rparr>)]\<rparr>)
                           else (task_id, snap)) g)
                 (parse_media (r_response_media row)))"

fun group_rows ::
    "active_row list \<Rightarrow> (int \<times> task_snapshot) list \<Rightarrow> (int \<times> task_snapshot) list option" where
  "group_rows [] tasks_grouped = Some tasks_grouped"
| "group_rows (row # rows) tasks_grouped =
     (case group_row row tasks_grouped of
        None \<Rightarrow> None
      | Some g \<Rightarrow> group_rows rows g)"

text \<open>
  \<open>get_active_tasks\<close>: the grouping loop runs under \<open>if result:\<close>, which fails for
  \<open>None\<close> and for the empty list and leaves \<open>tasks_grouped\<close> empty. The whole body
  stands in \<open>try\<close>, and \<open>except Exception\<close> logs the exception and returns the empty
  dict, whether \<open>execute_query\<close> raised or the grouping did: the function returns
  normally in every case (\<open>Inr\<close>).
\<close>

definition get_active_tasks ::
    "bool \<Rightarrow> database \<Rightarrow> (error + (int \<times> task_snapshot) list) \<times> database" where
  "get_active_tasks fails d =
     (case execute_query fails select_active_task_info d of
        (Inl e, d') \<Rightarrow> (Inr [], d')
      | (Inr None, d') \<Rightarrow> (Inr [], d')
      | (Inr (Some result), d') \<Rightarrow>
          (case group_rows result [] of
             None \<Rightarrow> (Inr [], d')
           | Some tasks_grouped \<Rightarrow> (Inr tasks_grouped, d')))"


section \<open>The reply handlers of \<open>bot.py\<close>\<close>

text \<open>
  What a handler answers. The task id of the two acceptance answers is the one the
  handler writes to its log; \<open>ActiveTaskNotFound\<close> carries the task texts the answer
  lists.
\<close>

datatype bot_reply =
    NotATaskMessage
  | TaskTextError
  | ChatNotRegistered
  | AnswerAccepted int
  | ActiveTaskNotFound "pystr list"
  | AnswerProcessingError
  | NoOriginalText
  | TaskTextNotFound
  | NoActiveTask
  | MediaAccepted int
  | MediaSaveError
  | TaskTextMissing
  | DeliveryReport nat nat
  | GenericError

subsection \<open>Text replies: \<open>handle_message\<close> (bot.py:175-289)\<close>

text \<open>\<open>SELECT title FROM chats WHERE chat_id = ?\<close>\<close>

definition select_chat_title :: "int \<Rightarrow> database \<Rightarrow> pystr list" where
  "select_chat_title chat_id d = [c_title c. c \<leftarrow> chats d, c_chat_id c = chat_id]"

text \<open>
  \<open>SELECT t.id, t.text, tr.status FROM tasks t JOIN task_recipients tr ON t.id =
  tr.task_id WHERE tr.chat_id = ? AND t.status = 'active' AND tr.status != 'completed'
  ORDER BY t.created_at DESC\<close>. SQLite runs the join by scanning \<open>task_recipients\<close>
  and looking the task of each row up by its id, so the rows of the join come in the
  scan order of \<open>task_recipients\<close>; they are then sorted on the creation time, newest
  first, and rows of the same creation time stay in the order of the join.
\<close>

definition select_active_tasks :: "int \<Rightarrow> database \<Rightarrow> (int \<times> pystr \<times> string) list" where
  "select_active_tasks chat_id d =
     map (\<lambda>(t, tr). (t_id t, t_text t, tr_status tr))
       (sort_key (\<lambda>(t, tr). - int (t_created_at t))
          [(t, tr). tr \<leftarrow> task_recipients d, t \<leftarrow> tasks d,
                    t_id t = tr_task_id tr \<and> tr_chat_id tr = Some chat_id \<and>
                    t_status t = ''active'' \<and> tr_status tr \<noteq> ''completed''])"

text \<open>
  The branch of \<open>handle_message\<close> for a message that replies to a message of the bot.
  \<open>original\<close> is \<open>update.message.reply_to_message.text\<close>. Database steps: 0 connect,
  1 the chat lookup, 2 the task query, 3 \<open>BEGIN\<close>, 4-6 the completion sequence, 7 the
  commit; an exception is answered by \<open>conn.rollback()\<close> and an error message.
\<close>

definition handle_message :: "faults \<Rightarrow> int \<Rightarrow> pystr option \<Rightarrow> database \<Rightarrow> bot_reply \<times> database" where
  "handle_message flt chat_id original d =
     (case original of
        None \<Rightarrow> (NotATaskMessage, d)
      | Some original_message \<Rightarrow>
          if \<not> startswith original_message new_task_marker then (NotATaskMessage, d)
          else
            case py_split1 original_message new_task_marker of
              [before, rest] \<Rightarrow>
                (let task_text = py_strip rest in
                 if flt 0 \<or> flt 1 then (AnswerProcessingError, d)
                 else if select_chat_title chat_id d = [] then (ChatNotRegistered, d)
                 else if flt 2 then (AnswerProcessingError, d)
                 else
                   let active_tasks = select_active_tasks chat_id d in
                   case find (\<lambda>task. py_strip (fst (snd task)) = task_text) active_tasks of
                     None \<Rightarrow> (ActiveTaskNotFound (map (\<lambda>task. fst (snd task)) active_tasks), d)
                   | Some matching_task \<Rightarrow>
                       (let task_id = fst matching_task in
                        if flt 3 then (AnswerProcessingError, d)
                        else
                          case mark_and_recount (\<lambda>i. flt (i + 4)) ''completed'' task_id chat_id d of
                            None \<Rightarrow> (AnswerProcessingError, d)
                          | Some d' \<Rightarrow>
                              if flt 7 then (AnswerProcessingError, d)
                              else (AnswerAccepted task_id, d')))
            | _ \<Rightarrow> (TaskTextError, d))"

subsection \<open>Media replies: \<open>handle_media_message\<close> (bot.py:384-515)\<close>

text \<open>The loop over the lines of a task block (bot.py:417-424); \<open>found_task\<close> is the
  loop's flag, the result is \<open>task_lines\<close>.\<close>

fun task_block_lines :: "bool \<Rightarrow> pystr list \<Rightarrow> pystr list" where
  "task_block_lines found_task [] = []"
| "task_block_lines found_task (line # lines) =
     (if py_in task_no_marker line then task_block_lines True lines
      else if found_task \<and> py_strip line \<noteq> [] \<and> \<not> startswith line recipients_marker
        then py_strip line # task_block_lines found_task lines
      else if found_task \<and> startswith line recipients_marker then []
      else task_block_lines found_task lines)"

text \<open>The extraction of the task text (bot.py:404-427); \<open>None\<close> is Python's
  \<open>None\<close>.\<close>

definition extract_task_text :: "pystr \<Rightarrow> pystr option" where
  "extract_task_text original_message =
     (if py_in new_task_marker original_message then
        (case py_split1 original_message new_task_marker of
           before # rest # others \<Rightarrow> Some (py_strip rest)
         | _ \<Rightarrow> None)
      else if py_in task_no_marker original_message then
        (let task_lines = task_block_lines False (py_split 10 original_message)
         in if task_lines \<noteq> [] then Some (py_join 10 task_lines) else None)
      else None)"

text \<open>
  \<open>SELECT t.id, tr.status FROM tasks t JOIN task_recipients tr ON t.id = tr.task_id
  WHERE tr.chat_id = ? AND t.text = ? AND t.status = 'active' AND tr.status !=
  'completed'\<close>. The statement has no \<open>ORDER BY\<close>: the rows come in the order in
  which SQLite runs the join, the scan order of \<open>task_recipients\<close>, with the task of
  each row looked up by its id.
\<close>

definition select_active_task_by_text :: "int \<Rightarrow> pystr \<Rightarrow> database \<Rightarrow> (int \<times> string) list" where
  "select_active_task_by_text chat_id task_text d =
     [(t_id t, tr_status tr). tr \<leftarrow> task_recipients d, t \<leftarrow> tasks d,
        t_id t = tr_task_id tr \<and> tr_chat_id tr = Some chat_id \<and> t_text t = task_text \<and>
        t_status t = ''active'' \<and> tr_status tr \<noteq> ''completed'']"

text \<open>\<open>INSERT INTO response_media (task_id, chat_id, file_id, file_type) VALUES (?, ?, ?,
  ?)\<close>\<close>

definition insert_response_media :: "int \<Rightarrow> int \<Rightarrow> pystr \<Rightarrow> string \<Rightarrow> database \<Rightarrow> database" where
  "insert_response_media task_id chat_id file_id file_type d =
     d\<lparr>response_media := response_media d @
          [\<lparr>rm_task_id = task_id, rm_chat_id = chat_id, rm_file_id = file_id,
            rm_file_type = file_type\<rparr>]\<rparr>"

text \<open>
  The branch of \<open>handle_media_message\<close> for a photo or document that replies to a
  message of the bot. \<open>reply_text\<close> and \<open>reply_caption\<close> are the text and the caption
  of the message replied to. Database steps: 0 connect, 1 \<open>BEGIN\<close>, 2 the task query,
  3 the media insert, 4-6 the completion sequence, 7 the commit.
\<close>

definition handle_media_message ::
    "faults \<Rightarrow> int \<Rightarrow> pystr \<Rightarrow> string \<Rightarrow> pystr option \<Rightarrow> pystr option \<Rightarrow> database \<Rightarrow>
       bot_reply \<times> database" where
  "handle_media_message flt chat_id file_id file_type reply_text reply_caption d =
     (let original_message =
            (if reply_text \<noteq> None \<and> reply_text \<noteq> Some [] then reply_text
             else if reply_caption \<noteq> None \<and> reply_caption \<noteq> Some [] then reply_caption
             else None)
      in
        case original_message of
          None \<Rightarrow> (NoOriginalText, d)
        | Some msg \<Rightarrow>
            (case extract_task_text msg of
               None \<Rightarrow> (TaskTextNotFound, d)
             | Some task_text \<Rightarrow>
                 if task_text = [] then (TaskTextNotFound, d)
                 else if flt 0 \<or> flt 1 \<or> flt 2 then (MediaSaveError, d)
                 else
                   case select_active_task_by_text chat_id task_text d of
                     [] \<Rightarrow> (NoActiveTask, d)
                   | task # _ \<Rightarrow>
                       (let task_id = fst task in
                        if flt 3 then (MediaSaveError, d)
                        else
                          let d1 = insert_response_media task_id chat_id file_id file_type d in
                          case mark_and_recount (\<lambda>i. flt (i + 4)) ''completed'' task_id chat_id d1 of
                            None \<Rightarrow> (MediaSaveError, d)
                          | Some d' \<Rightarrow>
                              if flt 7 then (MediaSaveError, d)
                              else (MediaAccepted task_id, d'))))"

subsection \<open>Fan-out: \<open>handle_recipient_selection\<close> (bot.py:967-1035)\<close>

text \<open>
  \<open>send_task_to_chat\<close> (bot.py:915-965) catches every exception of the messaging
  gateway and returns a \<open>bool\<close>, so the gateway is an oracle: \<open>send_ok k chat_id\<close> is
  what the \<open>k\<close>-th call of the fan-out returns. The state of the fan-out is the stored
  state, the number of database calls made so far (the index into the fault oracle), the
  two counters of the handler, and the log of the calls of \<open>send_task_to_chat\<close>: the chat,
  the group it was reached through, and the result.
\<close>

record fan_out =
  fo_db :: database
  fo_calls :: nat
  success_count :: nat
  total_count :: nat
  fo_sent :: "(int \<times> int option \<times> bool) list"

text \<open>\<open>INSERT INTO task_media (task_id, file_id, file_type) VALUES (?, ?, ?)\<close>\<close>

definition insert_task_media_sql :: pystr where
  "insert_task_media_sql =
     ascii ''INSERT INTO task_media (task_id, file_id, file_type) VALUES (?, ?, ?)''"

definition insert_task_media :: "int \<Rightarrow> pystr \<Rightarrow> string \<Rightarrow> unit query" where
  "insert_task_media task_id file_id file_type =
     (insert_task_media_sql,
      \<lambda>last_rowid d.
        Inr ([], d\<lparr>task_media := task_media d @
                     [\<lparr>tm_task_id = task_id, tm_file_id = file_id, tm_file_type = file_type\<rparr>]\<rparr>))"

text \<open>\<open>SELECT id FROM chat_groups WHERE name = ?\<close> and \<open>SELECT chat_id FROM chats WHERE
  title = ?\<close>\<close>

definition select_group_id_sql :: pystr where
  "select_group_id_sql = ascii ''SELECT id FROM chat_groups WHERE name = ?''"

definition select_group_id :: "pystr \<Rightarrow> int query" where
  "select_group_id group_name =
     (select_group_id_sql,
      \<lambda>last_rowid d. Inr ([cg_id g. g \<leftarrow> chat_groups d, cg_name g = group_name], d))"

definition select_chat_id_sql :: pystr where
  "select_chat_id_sql = ascii ''SELECT chat_id FROM chats WHERE title = ?''"

definition select_chat_id :: "pystr \<Rightarrow> int query" where
  "select_chat_id chat_title =
     (select_chat_id_sql,
      \<lambda>last_rowid d. Inr ([c_chat_id c. c \<leftarrow> chats d, c_title c = chat_title], d))"

text \<open>The loop over \<open>media_files\<close> (bot.py:983-988).\<close>

fun store_media :: "faults \<Rightarrow> int \<Rightarrow> (pystr \<times> string) list \<Rightarrow> fan_out \<Rightarrow> error option \<times> fan_out" where
  "store_media flt task_id [] st = (None, st)"
| "store_media flt task_id (media # rest) st =
     (case execute_query (flt (fo_calls st))
             (insert_task_media task_id (fst media) (snd media)) (fo_db st) of
        (Inl e, d') \<Rightarrow> (Some e, st\<lparr>fo_db := d', fo_calls := fo_calls st + 1\<rparr>)
      | (Inr u, d') \<Rightarrow>
          store_media flt task_id rest (st\<lparr>fo_db := d', fo_calls := fo_calls st + 1\<rparr>))"

text \<open>
  One chat after the other (bot.py:1007-1011, and 1020-1024 for a single chat): count it,
  send, and on success count it again and register it as a recipient. A send that fails
  takes the loop to the next chat; an exception of \<open>add_task_recipient\<close> leaves the loop
  and the handler.
\<close>

fun deliver ::
    "faults \<Rightarrow> (nat \<Rightarrow> int \<Rightarrow> bool) \<Rightarrow> int \<Rightarrow> int option \<Rightarrow> int list \<Rightarrow> fan_out \<Rightarrow>
       error option \<times> fan_out" where
  "deliver flt send_ok task_id group_id [] st = (None, st)"
| "deliver flt send_ok task_id group_id (chat_id # rest) st =
     (let ok = send_ok (length (fo_sent st)) chat_id;
          st1 = st\<lparr>total_count := total_count st + 1,
                   fo_sent := fo_sent st @ [(chat_id, group_id, ok)]\<rparr>
      in if ok then
           (let st2 = st1\<lparr>success_count := success_count st1 + 1\<rparr> in
            case add_task_recipient (flt (fo_calls st2)) task_id (Some chat_id) group_id (fo_db st2) of
              (Inl e, d') \<Rightarrow> (Some e, st2\<lparr>fo_db := d', fo_calls := fo_calls st2 + 1\<rparr>)
            | (Inr u, d') \<Rightarrow>
                deliver flt send_ok task_id group_id rest
                  (st2\<lparr>fo_db := d', fo_calls := fo_calls st2 + 1\<rparr>))
         else deliver flt send_ok task_id group_id rest st1)"

text \<open>The loop over the selected group names (bot.py:999-1011); \<open>if group:\<close> fails for
  \<open>None\<close> and for the empty list.\<close>

fun send_to_groups ::
    "faults \<Rightarrow> (nat \<Rightarrow> int \<Rightarrow> bool) \<Rightarrow> int \<Rightarrow> pystr list \<Rightarrow> fan_out \<Rightarrow> error option \<times> fan_out" where
  "send_to_groups flt send_ok task_id [] st = (None, st)"
| "send_to_groups flt send_ok task_id (group_name # rest) st =
     (case execute_query (flt (fo_calls st)) (select_group_id group_name) (fo_db st) of
        (Inl e, d') \<Rightarrow> (Some e, st\<lparr>fo_calls := fo_calls st + 1\<rparr>)
      | (Inr None, d') \<Rightarrow> send_to_groups flt send_ok task_id rest (st\<lparr>fo_calls := fo_calls st + 1\<rparr>)
      | (Inr (Some []), d') \<Rightarrow>
          send_to_groups flt send_ok task_id rest (st\<lparr>fo_calls := fo_calls st + 1\<rparr>)
      | (Inr (Some (group_id # more_ids)), d') \<Rightarrow>
          (case get_group_chats (flt (fo_calls st + 1)) group_id (fo_db st) of
             (Inl e, d'') \<Rightarrow> (Some e, st\<lparr>fo_calls := fo_calls st + 2\<rparr>)
           | (Inr members, d'') \<Rightarrow>
               (case deliver flt send_ok task_id (Some group_id) (map c_chat_id members)
                       (st\<lparr>fo_calls := fo_calls st + 2\<rparr>) of
                  (Some e, st') \<Rightarrow> (Some e, st')
                | (None, st') \<Rightarrow> send_to_groups flt send_ok task_id rest st')))"

text \<open>The loop over the selected chat titles (bot.py:1014-1024).\<close>

fun send_to_chats ::
    "faults \<Rightarrow> (nat \<Rightarrow> int \<Rightarrow> bool) \<Rightarrow> int \<Rightarrow> pystr list \<Rightarrow> fan_out \<Rightarrow> error option \<times> fan_out" where
  "send_to_chats flt send_ok task_id [] st = (None, st)"
| "send_to_chats flt send_ok task_id (chat_title # rest) st =
     (case execute_query (flt (fo_calls st)) (select_chat_id chat_title) (fo_db st) of
        (Inl e, d') \<Rightarrow> (Some e, st\<lparr>fo_calls := fo_calls st + 1\<rparr>)
      | (Inr None, d') \<Rightarrow> send_to_chats flt send_ok task_id rest (st\<lparr>fo_calls := fo_calls st + 1\<rparr>)
      | (Inr (Some []), d') \<Rightarrow>
          send_to_chats flt send_ok task_id rest (st\<lparr>fo_calls := fo_calls st + 1\<rparr>)
      | (Inr (Some (chat_id # more_ids)), d') \<Rightarrow>
          (case deliver flt send_ok task_id None [chat_id] (st\<lparr>fo_calls := fo_calls st + 1\<rparr>) of
             (Some e, st') \<Rightarrow> (Some e, st')
           | (None, st') \<Rightarrow> send_to_chats flt send_ok task_id rest st'))"

text \<open>
  The branch of \<open>handle_recipient_selection\<close> for the ``Confirm'' button. \<open>task_text\<close>,
  \<open>media_files\<close>, \<open>selected_titles\<close> and \<open>selection_type\<close> are the entries of
  \<open>context.user_data\<close>; \<open>selected_titles\<close> is a Python set and is given as the list of
  its elements in iteration order. \<open>if not task_text\<close> holds for \<open>None\<close> and for the
  empty string. An exception anywhere is answered by \<open>error_handler\<close>; what the calls of
  \<open>execute_query\<close> before it committed stays.
\<close>

definition handle_recipient_selection ::
    "faults \<Rightarrow> (nat \<Rightarrow> int \<Rightarrow> bool) \<Rightarrow> nat \<Rightarrow> int \<Rightarrow> pystr option \<Rightarrow> (pystr \<times> string) list \<Rightarrow>
       pystr list \<Rightarrow> string option \<Rightarrow> database \<Rightarrow> bot_reply \<times> fan_out" where
  "handle_recipient_selection flt send_ok now user_id task_text media_files selected_titles
       selection_type d =
     (let st0 = \<lparr>fo_db = d, fo_calls = 0, success_count = 0, total_count = 0, fo_sent = []\<rparr>
      in if task_text = None \<or> task_text = Some [] then (TaskTextMissing, st0)
         else
           case create_task flt now (the task_text) user_id d of
             (Inl e, d1) \<Rightarrow> (GenericError, st0\<lparr>fo_db := d1\<rparr>)
           | (Inr task_id, d1) \<Rightarrow>
               (case store_media flt task_id media_files (st0\<lparr>fo_db := d1, fo_calls := 2\<rparr>) of
                  (Some e, st1) \<Rightarrow> (GenericError, st1)
                | (None, st1) \<Rightarrow>
                    (case (if selection_type = Some ''group''
                           then send_to_groups flt send_ok task_id selected_titles st1
                           else send_to_chats flt send_ok task_id selected_titles st1) of
                       (Some e, st2) \<Rightarrow> (GenericError, st2)
                     | (None, st2) \<Rightarrow>
                         (DeliveryReport (success_count st2) (total_count st2), st2))))"

text \<open>The chats a selection stands for, with the group each is reached through: every
  member of the first group of each selected name, or the first chat of each selected
  title.\<close>

definition resolve_targets :: "string option \<Rightarrow> pystr list \<Rightarrow> database \<Rightarrow> (int \<times> int option) list" where
  "resolve_targets selection_type selected_titles d =
     (if selection_type = Some ''group''
      then [(c_chat_id c, Some group_id).
              group_name \<leftarrow> selected_titles,
              group_id \<leftarrow> take 1 [cg_id g. g \<leftarrow> chat_groups d, cg_name g = group_name],
              c \<leftarrow> chats d, gc \<leftarrow> group_chats d,
              c_chat_id c = gc_chat_id gc \<and> gc_group_id gc = group_id]
      else [(chat_id, None).
              chat_title \<leftarrow> selected_titles,
              chat_id \<leftarrow> take 1 [c_chat_id c. c \<leftarrow> chats d, c_title c = chat_title]])"

subsection \<open>Sequences of store operations\<close>

text \<open>The operations that read or write tasks and recipients, with their arguments, and
  the stored state each leaves behind.\<close>

datatype operation =
    TextReply faults int "pystr option"
  | MediaReply faults int pystr string "pystr option" "pystr option"
  | UpdateTaskStatus faults int int string
  | CreateTask faults nat pystr int
  | AddTaskMedia bool int pystr string
  | AddTaskRecipient bool int "int option" "int option"
  | GetActiveTasks bool

fun apply_operation :: "operation \<Rightarrow> database \<Rightarrow> database" where
  "apply_operation (TextReply flt chat_id original) d = snd (handle_message flt chat_id original d)"
| "apply_operation (MediaReply flt chat_id file_id file_type reply_text reply_caption) d =
     snd (handle_media_message flt chat_id file_id file_type reply_text reply_caption d)"
| "apply_operation (UpdateTaskStatus flt task_id chat_id status) d =
     snd (update_task_status flt task_id chat_id status d)"
| "apply_operation (CreateTask flt now text created_by) d = snd (create_task flt now text created_by d)"
| "apply_operation (AddTaskMedia fails task_id file_id file_type) d =
     snd (execute_query fails (insert_task_media task_id file_id file_type) d)"
| "apply_operation (AddTaskRecipient fails task_id chat_id group_id) d =
     snd (add_task_recipient fails task_id chat_id group_id d)"
| "apply_operation (GetActiveTasks fails) d = snd (get_active_tasks fails d)"

definition run :: "operation list \<Rightarrow> database \<Rightarrow> database" where
  "run ops d = fold apply_operation ops d"

text \<open>An operation keeps to the default \<open>status='completed'\<close> of
  \<open>update_task_status\<close>.\<close>

fun default_status :: "operation \<Rightarrow> bool" where
  "default_status (UpdateTaskStatus flt task_id chat_id status) = (status = ''completed'')"
| "default_status other = True"

subsection \<open>Reading a task and its recipients\<close>

definition task_status :: "database \<Rightarrow> int \<Rightarrow> string option" where
  "task_status d task_id = map_option t_status (find (\<lambda>t. t_id t = task_id) (tasks d))"

definition recipients_of :: "database \<Rightarrow> int \<Rightarrow> task_recipient list" where
  "recipients_of d task_id = filter (\<lambda>tr. tr_task_id tr = task_id) (task_recipients d)"

definition all_completed :: "database \<Rightarrow> int \<Rightarrow> bool" where
  "all_completed d task_id = list_all (\<lambda>tr. tr_status tr = ''completed'') (recipients_of d task_id)"

text \<open>
  The completion step in the words of the specification (\<open>markRecipientCompleted\<close> and
  the recount): the recipient row of the pair becomes \<open>'completed'\<close>, and in the same
  step the task becomes \<open>'completed'\<close> when it has at least one recipient and every one
  of its recipients is then \<open>'completed'\<close>.
\<close>

definition mark_recipient_completed :: "int \<Rightarrow> int \<Rightarrow> database \<Rightarrow> database" where
  "mark_recipient_completed task_id chat_id d =
     (let d1 = d\<lparr>task_recipients :=
                   map (\<lambda>tr. if tr_task_id tr = task_id \<and> tr_chat_id tr = Some chat_id
                              then tr\<lparr>tr_status := ''completed''\<rparr> else tr)
                     (task_recipients d)\<rparr>
      in if recipients_of d1 task_id \<noteq> [] \<and> all_completed d1 task_id
         then d1\<lparr>tasks := map (\<lambda>t. if t_id t = task_id then t\<lparr>t_status := ''completed''\<rparr> else t)
                             (tasks d1)\<rparr>
         else d1)"

text \<open>The primary key of \<open>tasks\<close>: no two rows share an id.\<close>

definition tasks_pk :: "database \<Rightarrow> bool" where
  "tasks_pk d = distinct (map t_id (tasks d))"

text \<open>The primary key of \<open>task_recipients\<close>: no two rows with a chat id share the pair
  \<open>(task_id, chat_id)\<close>.\<close>

definition recipients_pk :: "database \<Rightarrow> bool" where
  "recipients_pk d =
     distinct [(tr_task_id tr, tr_chat_id tr). tr \<leftarrow> task_recipients d, tr_chat_id tr \<noteq> None]"


subsection \<open>Example stores\<close>

text \<open>
  The announcement that \<open>send_task_to_chat\<close> sends for the task text ``Buy milk'', and
  a store with one active task of that text: chat 10 has completed it, chat 20 has not.
  Chat 30 of \<open>store_unregistered\<close> has a pending recipient row but no row in \<open>chats\<close>.
\<close>

definition announcement :: pystr where
  "announcement = new_task_marker @ ascii '' Buy milk''"

definition store_milk :: database where
  "store_milk = (init_database None)
     \<lparr>chats := [\<lparr>c_chat_id = 10, c_title = ascii ''A'', c_is_group = False\<rparr>,
                \<lparr>c_chat_id = 20, c_title = ascii ''B'', c_is_group = True\<rparr>],
      tasks := [\<lparr>t_id = 1, t_text = ascii ''Buy milk'', t_status = ''active'',
                  t_created_by = 7, t_created_at = 100\<rparr>],
      tasks_seq := 1,
      task_recipients :=
        [\<lparr>tr_task_id = 1, tr_chat_id = Some 10, tr_group_id = None, tr_status = ''completed''\<rparr>,
         \<lparr>tr_task_id = 1, tr_chat_id = Some 20, tr_group_id = None, tr_status = ''pending''\<rparr>]\<rparr>"

definition store_unregistered :: database where
  "store_unregistered = store_milk
     \<lparr>task_recipients := task_recipients store_milk @
        [\<lparr>tr_task_id = 1, tr_chat_id = Some 30, tr_group_id = None, tr_status = ''pending''\<rparr>]\<rparr>"


text \<open>\<open>store_milk\<close> in a database file whose \<open>task_recipients\<close> table also has a
  column \<open>id\<close>, the one case in which the lookup of \<open>update_task_status\<close> can be
  prepared.\<close>

definition store_with_id :: database where
  "store_with_id = store_milk\<lparr>task_recipients_extra_columns := [''id'']\<rparr>"


text \<open>
  \<open>store_trailing\<close>: the task text was stored with a space at its end, and
  \<open>announcement_trailing\<close> is what \<open>send_task_to_chat\<close> sent for it.
  \<open>store_twice\<close>: two active tasks with the same text, the second created later, both
  pending for chat 20.
\<close>

definition announcement_trailing :: pystr where
  "announcement_trailing = new_task_marker @ ascii '' Buy milk ''"

definition store_trailing :: database where
  "store_trailing = store_milk
     \<lparr>tasks := [\<lparr>t_id = 1, t_text = ascii ''Buy milk '', t_status = ''active'',
                  t_created_by = 7, t_created_at = 100\<rparr>]\<rparr>"

definition store_twice :: database where
  "store_twice = store_milk
     \<lparr>tasks := [\<lparr>t_id = 1, t_text = ascii ''Buy milk'', t_status = ''active'',
                  t_created_by = 7, t_created_at = 100\<rparr>,
                \<lparr>t_id = 2, t_text = ascii ''Buy milk'', t_status = ''active'',
                  t_created_by = 7, t_created_at = 200\<rparr>],
      tasks_seq := 2,
      task_recipients :=
        [\<lparr>tr_task_id = 1, tr_chat_id = Some 20, tr_group_id = None, tr_status = ''pending''\<rparr>,
         \<lparr>tr_task_id = 2, tr_chat_id = Some 20, tr_group_id = None, tr_status = ''pending''\<rparr>]\<rparr>"


subsection \<open>Describing a fan-out\<close>

text \<open>
  The calls of \<open>send_task_to_chat\<close> that cover a list of targets completely: one call
  per target, in order, the \<open>k\<close>-th call answered by the gateway; and the recipient rows
  that a log of calls stands for: a pending row of the task for each call that
  succeeded.
\<close>

fun attempts ::
    "(nat \<Rightarrow> int \<Rightarrow> bool) \<Rightarrow> nat \<Rightarrow> (int \<times> int option) list \<Rightarrow> (int \<times> int option \<times> bool) list" where
  "attempts send_ok k [] = []"
| "attempts send_ok k ((chat_id, group_id) # targets) =
     (chat_id, group_id, send_ok k chat_id) # attempts send_ok (Suc k) targets"

definition succeeded :: "(int \<times> int option \<times> bool) list \<Rightarrow> (int \<times> int option \<times> bool) list" where
  "succeeded sent = filter (\<lambda>call. snd (snd call)) sent"

definition recipient_rows :: "int \<Rightarrow> (int \<times> int option \<times> bool) list \<Rightarrow> task_recipient list" where
  "recipient_rows task_id sent =
     map (\<lambda>call. \<lparr>tr_task_id = task_id, tr_chat_id = Some (fst call),
                   tr_group_id = fst (snd call), tr_status = ''pending''\<rparr>)
       (succeeded sent)"


text \<open>\<open>unregistered task_id targets d\<close>: the target chats are pairwise different and
  none of them has a recipient row under \<open>task_id\<close> yet, so that no insert of the
  fan-out meets the primary key of \<open>task_recipients\<close>.\<close>

definition unregistered :: "int \<Rightarrow> (int \<times> int option) list \<Rightarrow> database \<Rightarrow> bool" where
  "unregistered task_id targets d \<longleftrightarrow>
     distinct (map fst targets) \<and>
     (\<forall>c \<in> set (map fst targets). \<forall>tr \<in> set (task_recipients d).
        \<not> (tr_task_id tr = task_id \<and> tr_chat_id tr = Some c))"

text \<open>A store with three registered chats and no task: the fan-out example of the
  specification.\<close>

definition store_chats :: database where
  "store_chats = (init_database None)
     \<lparr>chats := [\<lparr>c_chat_id = 1, c_title = ascii ''A'', c_is_group = False\<rparr>,
                \<lparr>c_chat_id = 2, c_title = ascii ''B'', c_is_group = False\<rparr>,
                \<lparr>c_chat_id = 3, c_title = ascii ''C'', c_is_group = False\<rparr>]\<rparr>"


subsection \<open>Comparing a table before and after\<close>

text \<open>
  \<open>grows R rows rows'\<close>: every row of \<open>rows\<close> is still there, at its place, and is
  related by \<open>R\<close> to what it was; rows may have been appended. A row \<open>changes_to\<close>
  another when it is the same row or the row with the status \<open>'completed'\<close>;
  a recipient row is \<open>kept\<close> when only its status may differ, and not even that if the
  status was \<open>'completed'\<close>.
\<close>

definition grows :: "('a \<Rightarrow> 'a \<Rightarrow> bool) \<Rightarrow> 'a list \<Rightarrow> 'a list \<Rightarrow> bool" where
  "grows R rows rows' \<longleftrightarrow>
     length rows \<le> length rows' \<and> (\<forall>i < length rows. R (rows ! i) (rows' ! i))"

definition task_changes_to :: "task \<Rightarrow> task \<Rightarrow> bool" where
  "task_changes_to t t' \<longleftrightarrow> t' = t \<or> t' = t\<lparr>t_status := ''completed''\<rparr>"

definition recipient_changes_to :: "task_recipient \<Rightarrow> task_recipient \<Rightarrow> bool" where
  "recipient_changes_to r r' \<longleftrightarrow> r' = r \<or> r' = r\<lparr>tr_status := ''completed''\<rparr>"

definition recipient_kept :: "task_recipient \<Rightarrow> task_recipient \<Rightarrow> bool" where
  "recipient_kept r r' \<longleftrightarrow>
     (if tr_status r = ''completed'' then r' = r else r' = r\<lparr>tr_status := tr_status r'\<rparr>)"


text \<open>A run on \<open>store_with_id\<close>: chat 20 completes task 1 by a text reply, then
  \<open>update_task_status\<close> is asked to set both recipients back to \<open>'pending'\<close>, a
  recipient row for chat 20 is inserted a second time, and a new task is created.\<close>

definition reopen_attempt :: "operation list" where
  "reopen_attempt =
     [TextReply no_fault 20 (Some announcement),
      UpdateTaskStatus no_fault 1 20 ''pending'',
      UpdateTaskStatus no_fault 1 10 ''pending'',
      AddTaskRecipient False 1 (Some 20) None,
      CreateTask no_fault 5 (ascii ''Water plants'') 7]"


section \<open>Verified properties\<close>

subsection \<open>Evaluation and basic facts\<close>

lemmas string_defs = ascii_def py_strip_def py_isspace_def py_split1_def py_in_def
  new_task_marker_def task_no_marker_def recipients_marker_def

lemmas store_defs = init_database_def no_fault_def update_recipient_status_def
  count_recipients_def set_task_completed_def mark_and_recount_def select_chat_title_def
  select_active_tasks_def select_active_task_by_text_def insert_response_media_def
  extract_task_text_def task_status_def recipients_of_def all_completed_def tasks_pk_def

lemmas uts_eval = update_task_status_def select_pending_recipient_def store_with_id_def
  store_milk_def store_defs Let_def

lemmas reply_eval = handle_message_def handle_media_message_def string_defs store_defs Let_def

text \<open>Which of the program's statements \<open>execute_query\<close> takes for a \<open>SELECT\<close>.\<close>

lemma py_strip_spaces:
  "\<forall>c \<in> set ws. py_isspace c \<Longrightarrow> py_strip (ws @ s) = py_strip s"
  by (simp add: py_strip_def dropWhile_append)

lemma py_strip_word:
  assumes "\<forall>c \<in> set w. \<not> py_isspace c" and "w \<noteq> []"
  shows "py_strip (w @ rest) = w @ rev (dropWhile py_isspace (rev rest))"
proof -
  from assms obtain c cs where w: "w = c # cs" by (cases w) auto
  with assms have c: "\<not> py_isspace c" by simp
  have l: "dropWhile py_isspace (w @ rest) = w @ rest"
    using w c by simp
  from assms obtain b bs where r: "rev w = b # bs" by (cases "rev w") auto
  then have "b \<in> set w" by (metis list.set_intros(1) set_rev)
  with assms have b: "\<not> py_isspace b" by simp
  have "dropWhile py_isspace (rev rest @ rev w) = dropWhile py_isspace (rev rest) @ rev w"
    using r b by (simp add: dropWhile_append)
  then show ?thesis by (simp add: py_strip_def l)
qed

lemma startswith_append:
  "length p \<le> length w \<Longrightarrow> startswith (w @ r) p = startswith w p"
  by (induction w p rule: startswith.induct) auto

lemma starts_with_select_word:
  assumes "\<forall>c \<in> set ws. py_isspace c" and "\<forall>c \<in> set w. \<not> py_isspace c" and "length w = 6"
  shows "starts_with_select (ws @ w @ rest) = (map py_upper w = ascii ''SELECT'')"
proof -
  from assms(3) have ne: "w \<noteq> []" by auto
  have "startswith (map py_upper w) (ascii ''SELECT'') = (map py_upper w = ascii ''SELECT'')"
    using assms(3)
    by (auto simp: ascii_def length_Suc_conv numeral_eq_Suc)
  then show ?thesis
    unfolding starts_with_select_def
    by (simp add: py_strip_spaces [OF assms(1)] py_strip_word [OF assms(2) ne]
        startswith_append assms(3) ascii_def)
qed

lemma starts_with_select_at:
  assumes "\<forall>c \<in> set (take n s). py_isspace c"
    and "\<forall>c \<in> set (take 6 (drop n s)). \<not> py_isspace c"
    and "length (take 6 (drop n s)) = 6"
  shows "starts_with_select s = (map py_upper (take 6 (drop n s)) = ascii ''SELECT'')"
proof -
  have "s = take n s @ take 6 (drop n s) @ drop 6 (drop n s)"
    by (simp only: append_take_drop_id)
  with starts_with_select_word [OF assms, of "drop 6 (drop n s)"] show ?thesis
    by simp
qed

lemma not_select_at:
  assumes "\<forall>c \<in> set (take n s). py_isspace c"
    and "n < length s" and "\<not> py_isspace (s ! n)" and "py_upper (s ! n) \<noteq> 83"
  shows "\<not> starts_with_select s"
proof -
  have s: "s = take n s @ [s ! n] @ drop (Suc n) s"
    using assms(2) by (simp add: id_take_nth_drop)
  have "py_strip s = py_strip ([s ! n] @ drop (Suc n) s)"
    using py_strip_spaces [OF assms(1), of "[s ! n] @ drop (Suc n) s"] s by simp
  also have "\<dots> = [s ! n] @ rev (dropWhile py_isspace (rev (drop (Suc n) s)))"
    by (rule py_strip_word) (simp_all add: assms(3))
  finally show ?thesis
    using assms(4) by (simp add: starts_with_select_def ascii_def)
qed

lemmas select_test = ascii_def py_isspace_def py_upper_def

lemma insert_task_not_select [simp]: "\<not> starts_with_select insert_task_sql"
  by (rule not_select_at [of 0]) (simp_all add: insert_task_sql_def select_test)

lemma insert_task_recipient_not_select [simp]: "\<not> starts_with_select insert_task_recipient_sql"
  by (rule not_select_at [of 0]) (simp_all add: insert_task_recipient_sql_def select_test)

lemma insert_task_media_not_select [simp]: "\<not> starts_with_select insert_task_media_sql"
  by (rule not_select_at [of 0]) (simp_all add: insert_task_media_sql_def select_test)

lemma select_last_insert_rowid_select [simp]: "starts_with_select select_last_insert_rowid_sql"
  by (simp add: starts_with_select_at [of 0] select_last_insert_rowid_sql_def select_test)

lemma select_group_id_select [simp]: "starts_with_select select_group_id_sql"
  by (simp add: starts_with_select_at [of 0] select_group_id_sql_def select_test)

lemma select_chat_id_select [simp]: "starts_with_select select_chat_id_sql"
  by (simp add: starts_with_select_at [of 0] select_chat_id_sql_def select_test)

lemma get_group_chats_select [simp]: "starts_with_select get_group_chats_sql"
  by (simp add: starts_with_select_at [of 13] get_group_chats_sql_def select_test)

lemma get_active_tasks_not_select [simp]: "\<not> starts_with_select get_active_tasks_sql"
  by (rule not_select_at [of 17]) (simp_all add: get_active_tasks_sql_def select_test)

lemma py_find_startswith: "sep \<noteq> [] \<Longrightarrow> startswith s sep \<Longrightarrow> py_find s sep = Some 0"
  by (cases s) (auto simp: neq_Nil_conv)

lemma py_split1_startswith:
  "sep \<noteq> [] \<Longrightarrow> startswith s sep \<Longrightarrow> py_split1 s sep = [[], drop (length sep) s]"
  by (simp add: py_split1_def py_find_startswith)

lemma length_filter_eq_iff: "length (filter P xs) = length xs \<longleftrightarrow> list_all P xs"
proof (induction xs)
  case Nil
  show ?case by simp
next
  case (Cons x xs)
  have "length (filter P xs) \<noteq> Suc (length xs)"
    by (metis length_filter_le Suc_n_not_le_n)
  with Cons show ?case by auto
qed

lemma length_eq_filter_iff: "length xs = length (filter P xs) \<longleftrightarrow> list_all P xs"
  using length_filter_eq_iff [of P xs] by auto

lemma find_in_set: "find P xs = Some x \<Longrightarrow> x \<in> set xs \<and> P x"
  by (induction xs) (auto split: if_splits)

lemma filter_task_id_map:
  assumes "\<And>tr. tr_task_id (f tr) = tr_task_id tr"
  shows "filter (\<lambda>tr. tr_task_id tr = tid) (map f xs) = map f (filter (\<lambda>tr. tr_task_id tr = tid) xs)"
  by (induction xs) (simp_all add: assms)

lemma tasks_update_recipient_status [simp]:
  "tasks (update_recipient_status s t c d) = tasks d"
  by (simp add: update_recipient_status_def)

lemma task_recipients_set_task_completed [simp]:
  "task_recipients (set_task_completed t d) = task_recipients d"
  by (simp add: set_task_completed_def)

lemma tasks_insert_response_media [simp]:
  "tasks (insert_response_media t c f k d) = tasks d"
  by (simp add: insert_response_media_def)

lemma task_recipients_insert_response_media [simp]:
  "task_recipients (insert_response_media t c f k d) = task_recipients d"
  by (simp add: insert_response_media_def)


lemma recipients_of_set_task_completed [simp]:
  "recipients_of (set_task_completed t d) tid = recipients_of d tid"
  by (simp add: recipients_of_def)

lemma find_map_status:
  "map_option t_status
     (find (\<lambda>t. t_id t = tid) (map (\<lambda>t. if t_id t = t0 then t\<lparr>t_status := s\<rparr> else t) ts)) =
   (if tid = t0 then map_option (\<lambda>x. s) (find (\<lambda>t. t_id t = tid) ts)
    else map_option t_status (find (\<lambda>t. t_id t = tid) ts))"
  by (induction ts) auto

lemma task_status_set_task_completed:
  "task_status (set_task_completed t d) tid =
     (if tid = t then map_option (\<lambda>s. ''completed'') (task_status d tid) else task_status d tid)"
  by (simp add: task_status_def set_task_completed_def find_map_status option.map_comp comp_def)

lemma task_status_update_recipient_status [simp]:
  "task_status (update_recipient_status s t c d) tid = task_status d tid"
  by (simp add: task_status_def)

lemma count_recipients_eq:
  "count_recipients tid d =
     (length (recipients_of d tid),
      if recipients_of d tid = [] then None
      else Some (length (filter (\<lambda>tr. tr_status tr = ''completed'') (recipients_of d tid))))"
  by (simp add: count_recipients_def recipients_of_def Let_def)

lemma find_distinct_id:
  "distinct (map t_id ts) \<Longrightarrow> t \<in> set ts \<Longrightarrow> find (\<lambda>u. t_id u = t_id t) ts = Some t"
  by (induction ts) (auto simp: image_iff)

lemma task_status_of_row:
  "tasks_pk d \<Longrightarrow> t \<in> set (tasks d) \<Longrightarrow> task_status d (t_id t) = Some (t_status t)"
  by (simp add: tasks_pk_def task_status_def find_distinct_id)

lemma recipients_of_nonempty:
  "tr \<in> set (task_recipients d) \<Longrightarrow> tr_task_id tr = tid \<Longrightarrow> recipients_of d tid \<noteq> []"
  by (auto simp: recipients_of_def filter_empty_conv)

subsection \<open>The completion sequence\<close>

lemma mark_and_recount_recipients:
  assumes "mark_and_recount flt s tid chat d = Some d'"
  shows "task_recipients d' = task_recipients (update_recipient_status s tid chat d)"
  using assms by (auto simp: mark_and_recount_def Let_def split: if_splits)

lemma list_all_marked:
  "list_all (\<lambda>tr. tr_status tr = ''completed'')
     (map (\<lambda>tr. if tr_task_id tr = tid \<and> tr_chat_id tr = Some chat
                then tr\<lparr>tr_status := ''completed''\<rparr> else tr)
        (filter (\<lambda>tr. tr_task_id tr = tid) xs)) =
   list_all (\<lambda>tr. tr_chat_id tr = Some chat \<or> tr_status tr = ''completed'')
     (filter (\<lambda>tr. tr_task_id tr = tid) xs)"
  by (induction xs) auto

lemma marked_row_completed:
  assumes "tr \<in> set (map (\<lambda>r. if tr_task_id r = task \<and> tr_chat_id r = Some chat
                              then r\<lparr>tr_status := ''completed''\<rparr> else r) xs)"
    and "tr_task_id tr = task" and "tr_chat_id tr = Some chat"
  shows "tr_status tr = ''completed''"
proof -
  from assms(1) obtain r where r: "r \<in> set xs"
    and tr: "tr = (if tr_task_id r = task \<and> tr_chat_id r = Some chat
                   then r\<lparr>tr_status := ''completed''\<rparr> else r)"
    by (auto simp only: set_map image_iff)
  show ?thesis
  proof (cases "tr_task_id r = task \<and> tr_chat_id r = Some chat")
    case True
    with tr show ?thesis by simp
  next
    case False
    with tr have "tr = r" by simp
    with False assms(2,3) show ?thesis by simp
  qed
qed

subsection \<open>What an accepted reply has found\<close>

lemma select_active_tasks_memD:
  "row \<in> set (select_active_tasks chat d) \<Longrightarrow>
     \<exists>t \<in> set (tasks d). \<exists>tr \<in> set (task_recipients d).
        t_id t = fst row \<and> t_text t = fst (snd row) \<and> tr_task_id tr = fst row \<and>
        tr_chat_id tr = Some chat \<and> t_status t = ''active'' \<and> tr_status tr \<noteq> ''completed''"
  by (auto simp: select_active_tasks_def) blast

lemma select_active_task_by_text_memD:
  "row \<in> set (select_active_task_by_text chat wanted d) \<Longrightarrow>
     \<exists>t \<in> set (tasks d). \<exists>tr \<in> set (task_recipients d).
        t_id t = fst row \<and> t_text t = wanted \<and> tr_task_id tr = fst row \<and>
        tr_chat_id tr = Some chat \<and> t_status t = ''active'' \<and> tr_status tr \<noteq> ''completed''"
  by (auto simp: select_active_task_by_text_def)

lemma select_pending_recipient_memD:
  "select_pending_recipient tid chat d = Inr rows \<Longrightarrow> row \<in> set rows \<Longrightarrow>
     \<exists>t \<in> set (tasks d). \<exists>tr \<in> set (task_recipients d).
        t_id t = tid \<and> tr_task_id tr = tid \<and>
        tr_chat_id tr = Some chat \<and> t_status t = ''active'' \<and> tr_status tr \<noteq> ''completed''"
  by (auto simp: select_pending_recipient_def split: if_splits) blast

lemma handle_message_AcceptedE:
  assumes "handle_message flt chat original d = (AnswerAccepted tid, d')"
  obtains task_text task where
    "find (\<lambda>task. py_strip (fst (snd task)) = task_text) (select_active_tasks chat d) = Some task"
    "fst task = tid"
    "mark_and_recount (\<lambda>i. flt (i + 4)) ''completed'' tid chat d = Some d'"
  using assms
  by (auto simp: handle_message_def Let_def split: option.splits list.splits if_splits)

lemma handle_media_message_AcceptedE:
  assumes "handle_media_message flt chat file_id file_type reply_text reply_caption d = (MediaAccepted tid, d')"
  obtains task_text task rows where
    "select_active_task_by_text chat task_text d = task # rows"
    "fst task = tid"
    "mark_and_recount (\<lambda>i. flt (i + 4)) ''completed'' tid chat
       (insert_response_media tid chat file_id file_type d) = Some d'"
  using assms
  by (auto simp: handle_media_message_def Let_def split: option.splits list.splits if_splits)


section \<open>The claims\<close>

subsection \<open>Completing a task\<close>

lemma mark_and_recount_spec:
  assumes "\<not> flt 0" "\<not> flt 1" "\<not> flt 2"
  shows "mark_and_recount flt ''completed'' tid chat d = Some (mark_recipient_completed tid chat d)"
proof -
  let ?d1 = "update_recipient_status ''completed'' tid chat d"
  have c: "(Some (fst (count_recipients tid ?d1)) = snd (count_recipients tid ?d1)) \<longleftrightarrow>
        (recipients_of ?d1 tid \<noteq> [] \<and> all_completed ?d1 tid)"
    by (simp add: count_recipients_eq all_completed_def length_eq_filter_iff)
  show ?thesis
    unfolding mark_and_recount_def Let_def c mark_recipient_completed_def
    using assms
    by (simp add: update_recipient_status_def set_task_completed_def)
qed

lemma mark_recipient_completed_media:
  "mark_recipient_completed tid chat (insert_response_media tid chat file_id file_type d) =
     (mark_recipient_completed tid chat d)
       \<lparr>response_media := response_media d @
          [\<lparr>rm_task_id = tid, rm_chat_id = chat, rm_file_id = file_id, rm_file_type = file_type\<rparr>]\<rparr>"
  by (simp add: mark_recipient_completed_def insert_response_media_def Let_def
      recipients_of_def all_completed_def)

lemma recipients_of_marked:
  "recipients_of (mark_recipient_completed tid chat d) u =
     map (\<lambda>tr. if tr_task_id tr = tid \<and> tr_chat_id tr = Some chat
                then tr\<lparr>tr_status := ''completed''\<rparr> else tr) (recipients_of d u)"
  by (simp add: mark_recipient_completed_def Let_def recipients_of_def filter_task_id_map)

lemma recipients_of_marked_other:
  assumes "u \<noteq> tid"
  shows "recipients_of (mark_recipient_completed tid chat d) u = recipients_of d u"
proof -
  have "map (\<lambda>tr. if tr_task_id tr = tid \<and> tr_chat_id tr = Some chat
                then tr\<lparr>tr_status := ''completed''\<rparr> else tr) (recipients_of d u) =
        recipients_of d u"
    using assms by (intro map_idI) (auto simp: recipients_of_def)
  then show ?thesis by (simp only: recipients_of_marked)
qed

lemma all_completed_marked:
  "all_completed (mark_recipient_completed tid chat d) tid \<longleftrightarrow>
     list_all (\<lambda>tr. tr_chat_id tr = Some chat \<or> tr_status tr = ''completed'') (recipients_of d tid)"
  unfolding all_completed_def recipients_of_marked
  by (simp only: recipients_of_def list_all_marked)

lemma task_status_marked:
  "task_status (mark_recipient_completed tid chat d) u =
     (if u = tid \<and> recipients_of d tid \<noteq> [] \<and> all_completed (mark_recipient_completed tid chat d) tid
      then map_option (\<lambda>s. ''completed'') (task_status d u) else task_status d u)"
proof -
  let ?d1 = "d\<lparr>task_recipients :=
                   map (\<lambda>tr. if tr_task_id tr = tid \<and> tr_chat_id tr = Some chat
                              then tr\<lparr>tr_status := ''completed''\<rparr> else tr)
                     (task_recipients d)\<rparr>"
  have ne: "recipients_of ?d1 tid \<noteq> [] \<longleftrightarrow> recipients_of d tid \<noteq> []"
    by (simp add: recipients_of_def filter_task_id_map)
  have ac: "all_completed (mark_recipient_completed tid chat d) tid = all_completed ?d1 tid"
    by (simp add: mark_recipient_completed_def Let_def all_completed_def recipients_of_def)
  show ?thesis
    unfolding ac
    by (simp add: mark_recipient_completed_def Let_def ne task_status_def find_map_status
        option.map_comp comp_def)
qed


lemma update_task_status_completes:
  assumes nf: "\<forall>i. \<not> flt i"
    and f: "select_pending_recipient tid chat d = Inr (row # rows)"
  shows "update_task_status flt tid chat ''completed'' d =
           (Inr (), mark_recipient_completed tid chat d)"
proof -
  from nf have fl: "flt = (\<lambda>i. False)" by auto
  have "mark_and_recount (\<lambda>i. False) ''completed'' tid chat d =
      Some (mark_recipient_completed tid chat d)"
    by (rule mark_and_recount_spec) simp_all
  then show ?thesis by (simp add: update_task_status_def f fl)
qed

lemma handle_message_completes:
  assumes nf: "\<forall>i. \<not> flt i"
    and st: "startswith msg new_task_marker"
    and reg: "select_chat_title chat d \<noteq> []"
    and f: "find (\<lambda>task. py_strip (fst (snd task)) = py_strip (drop (length new_task_marker) msg))
              (select_active_tasks chat d) = Some task"
    and t: "fst task = tid"
  shows "handle_message flt chat (Some msg) d =
           (AnswerAccepted tid, mark_recipient_completed tid chat d)"
proof -
  have "new_task_marker \<noteq> []" by (simp add: new_task_marker_def)
  from py_split1_startswith [OF this st]
  have sp: "py_split1 msg new_task_marker = [[], drop (length new_task_marker) msg]" .
  from nf have fl: "flt = (\<lambda>i. False)" by auto
  have m: "mark_and_recount (\<lambda>i. False) ''completed'' tid chat d =
      Some (mark_recipient_completed tid chat d)"
    by (rule mark_and_recount_spec) simp_all
  show ?thesis
    unfolding handle_message_def Let_def
    by (simp add: sp st reg f t m fl)
qed

lemma handle_media_message_completes:
  assumes nf: "\<forall>i. \<not> flt i"
    and o: "(reply_text = Some msg \<or>
             ((reply_text = None \<or> reply_text = Some []) \<and> reply_caption = Some msg)) \<and> msg \<noteq> []"
    and e: "extract_task_text msg = Some wanted" and ne: "wanted \<noteq> []"
    and f: "select_active_task_by_text chat wanted d = found # others"
    and t: "fst found = tid"
  shows "handle_media_message flt chat file_id file_type reply_text reply_caption d =
           (MediaAccepted tid,
            (mark_recipient_completed tid chat d)
              \<lparr>response_media := response_media d @
                 [\<lparr>rm_task_id = tid, rm_chat_id = chat, rm_file_id = file_id,
                   rm_file_type = file_type\<rparr>]\<rparr>)"
proof -
  have om: "(if reply_text \<noteq> None \<and> reply_text \<noteq> Some [] then reply_text
             else if reply_caption \<noteq> None \<and> reply_caption \<noteq> Some [] then reply_caption
             else None) = Some msg"
    using o by auto
  from nf have fl: "flt = (\<lambda>i. False)" by auto
  have m: "mark_and_recount (\<lambda>i. False) ''completed'' tid chat
        (insert_response_media tid chat file_id file_type d) =
      Some ((mark_recipient_completed tid chat d)
              \<lparr>response_media := response_media d @
                 [\<lparr>rm_task_id = tid, rm_chat_id = chat, rm_file_id = file_id,
                   rm_file_type = file_type\<rparr>]\<rparr>)"
    unfolding mark_recipient_completed_media [symmetric]
    by (rule mark_and_recount_spec) simp_all
  show ?thesis
    unfolding handle_media_message_def Let_def om
    by (simp add: e ne f t m fl)
qed


lemma found_task_is_active:
  assumes pk: "tasks_pk d"
    and "\<exists>t \<in> set (tasks d). \<exists>tr \<in> set (task_recipients d).
           t_id t = tid \<and> tr_task_id tr = tid \<and> t_status t = ''active''"
  shows "task_status d tid = Some ''active'' \<and> recipients_of d tid \<noteq> []"
proof -
  from assms(2) obtain t tr where t: "t \<in> set (tasks d)" "t_id t = tid" "t_status t = ''active''"
    and tr: "tr \<in> set (task_recipients d)" "tr_task_id tr = tid" by auto
  from task_status_of_row [OF pk t(1)] t recipients_of_nonempty [OF tr]
  show ?thesis by simp
qed

lemma marked_step:
  assumes act: "task_status d tid = Some ''active''" and ne: "recipients_of d tid \<noteq> []"
  shows "(let d' = mark_recipient_completed tid chat d in
            recipients_of d' tid \<noteq> [] \<and>
            (\<forall>tr \<in> set (recipients_of d' tid).
               tr_chat_id tr = Some chat \<longrightarrow> tr_status tr = ''completed'') \<and>
            (task_status d' tid = Some ''completed'' \<longleftrightarrow> all_completed d' tid) \<and>
            (all_completed d' tid \<longleftrightarrow>
               list_all (\<lambda>tr. tr_chat_id tr = Some chat \<or> tr_status tr = ''completed'')
                 (recipients_of d tid)) \<and>
            (\<forall>u. u \<noteq> tid \<longrightarrow>
               task_status d' u = task_status d u \<and> recipients_of d' u = recipients_of d u) \<and>
            (\<forall>u. task_status d' u = Some ''completed'' \<longrightarrow>
               task_status d u = Some ''completed'' \<or> (u = tid \<and> all_completed d' u)))"
proof -
  let ?d' = "mark_recipient_completed tid chat d"
  have a: "recipients_of ?d' tid \<noteq> []"
    using ne by (simp add: recipients_of_marked)
  have b: "\<forall>tr \<in> set (recipients_of ?d' tid).
               tr_chat_id tr = Some chat \<longrightarrow> tr_status tr = ''completed''"
  proof (intro ballI impI)
    fix tr
    assume m: "tr \<in> set (recipients_of ?d' tid)" and c: "tr_chat_id tr = Some chat"
    from m have t: "tr_task_id tr = tid" by (simp add: recipients_of_def)
    from m have "tr \<in> set (map (\<lambda>r. if tr_task_id r = tid \<and> tr_chat_id r = Some chat
                              then r\<lparr>tr_status := ''completed''\<rparr> else r) (recipients_of d tid))"
      by (simp only: recipients_of_marked)
    from marked_row_completed [OF this t c] show "tr_status tr = ''completed''" .
  qed
  have c: "task_status ?d' tid = Some ''completed'' \<longleftrightarrow> all_completed ?d' tid"
    using act ne by (simp add: task_status_marked)
  have e: "\<forall>u. u \<noteq> tid \<longrightarrow>
               task_status ?d' u = task_status d u \<and> recipients_of ?d' u = recipients_of d u"
    by (simp add: task_status_marked recipients_of_marked_other)
  have f: "\<forall>u. task_status ?d' u = Some ''completed'' \<longrightarrow>
               task_status d u = Some ''completed'' \<or> (u = tid \<and> all_completed ?d' u)"
    using c e by metis
  from a b c all_completed_marked [of tid chat d] e f show ?thesis
    unfolding Let_def by (intro conjI)
qed

text \<open>
  \<^bold>\<open>C1.\<close> Each of the three completion operations, when no database step fails and
  its lookup finds the pair --- \<open>update_task_status\<close> a pending recipient row of the
  active task, the text-reply handler (\<open>handle_message\<close>, from a registered chat) a
  candidate task with the text of the announcement, the media-reply handler
  (\<open>handle_media_message\<close>) a row of its query --- accepts and commits exactly the store
  that the completion step of the specification gives; the media handler adds the media
  row. In that store the recipient rows of the pair are \<open>completed\<close>, the task has at
  least one recipient, and the status of the task is \<open>completed\<close> if and only if every
  one of its recipients is \<open>completed\<close>, which is the case exactly when every recipient
  other than the replying chat was \<open>completed\<close> before: the reply of the last pending
  recipient closes the task in the same step. Every other task keeps its status and its
  recipient rows, so a task that is \<open>completed\<close> after the step was \<open>completed\<close>
  before it or is the task of the step with all its recipients \<open>completed\<close>.
\<close>

theorem completion_closes_task:
  assumes pk: "tasks_pk d" and nf: "\<forall>i. \<not> flt i"
  shows
    "(select_pending_recipient tid chat d = Inr (row # rows) \<longrightarrow>
        update_task_status flt tid chat ''completed'' d =
          (Inr (), mark_recipient_completed tid chat d) \<and>
        task_status d tid = Some ''active'' \<and> recipients_of d tid \<noteq> []) \<and>
     (startswith msg new_task_marker \<and> select_chat_title chat d \<noteq> [] \<and>
      find (\<lambda>task. py_strip (fst (snd task)) = py_strip (drop (length new_task_marker) msg))
        (select_active_tasks chat d) = Some task \<and> fst task = tid \<longrightarrow>
        handle_message flt chat (Some msg) d =
          (AnswerAccepted tid, mark_recipient_completed tid chat d) \<and>
        task_status d tid = Some ''active'' \<and> recipients_of d tid \<noteq> []) \<and>
     ((reply_text = Some media_msg \<or>
       ((reply_text = None \<or> reply_text = Some []) \<and> reply_caption = Some media_msg)) \<and>
      media_msg \<noteq> [] \<and> extract_task_text media_msg = Some wanted \<and> wanted \<noteq> [] \<and>
      select_active_task_by_text chat wanted d = found # others \<and> fst found = tid \<longrightarrow>
        handle_media_message flt chat file_id file_type reply_text reply_caption d =
          (MediaAccepted tid,
           (mark_recipient_completed tid chat d)
             \<lparr>response_media := response_media d @
                [\<lparr>rm_task_id = tid, rm_chat_id = chat, rm_file_id = file_id,
                  rm_file_type = file_type\<rparr>]\<rparr>) \<and>
        task_status d tid = Some ''active'' \<and> recipients_of d tid \<noteq> []) \<and>
     (task_status d tid = Some ''active'' \<and> recipients_of d tid \<noteq> [] \<longrightarrow>
        (let d' = mark_recipient_completed tid chat d in
            recipients_of d' tid \<noteq> [] \<and>
            (\<forall>tr \<in> set (recipients_of d' tid).
               tr_chat_id tr = Some chat \<longrightarrow> tr_status tr = ''completed'') \<and>
            (task_status d' tid = Some ''completed'' \<longleftrightarrow> all_completed d' tid) \<and>
            (all_completed d' tid \<longleftrightarrow>
               list_all (\<lambda>tr. tr_chat_id tr = Some chat \<or> tr_status tr = ''completed'')
                 (recipients_of d tid)) \<and>
            (\<forall>u. u \<noteq> tid \<longrightarrow>
               task_status d' u = task_status d u \<and> recipients_of d' u = recipients_of d u) \<and>
            (\<forall>u. task_status d' u = Some ''completed'' \<longrightarrow>
               task_status d u = Some ''completed'' \<or> (u = tid \<and> all_completed d' u))))"
proof (intro conjI impI)
  assume f: "select_pending_recipient tid chat d = Inr (row # rows)"
  from update_task_status_completes [OF nf f]
  show "update_task_status flt tid chat ''completed'' d =
          (Inr (), mark_recipient_completed tid chat d)" .
  from select_pending_recipient_memD [OF f, of row]
  have "\<exists>t \<in> set (tasks d). \<exists>tr \<in> set (task_recipients d).
           t_id t = tid \<and> tr_task_id tr = tid \<and> t_status t = ''active''"
    by auto
  from found_task_is_active [OF pk this]
  show "task_status d tid = Some ''active''" and "recipients_of d tid \<noteq> []" by simp_all
next
  assume a: "startswith msg new_task_marker \<and> select_chat_title chat d \<noteq> [] \<and>
      find (\<lambda>task. py_strip (fst (snd task)) = py_strip (drop (length new_task_marker) msg))
        (select_active_tasks chat d) = Some task \<and> fst task = tid"
  then have st: "startswith msg new_task_marker" and reg: "select_chat_title chat d \<noteq> []"
    and f: "find (\<lambda>task. py_strip (fst (snd task)) = py_strip (drop (length new_task_marker) msg))
        (select_active_tasks chat d) = Some task" and t: "fst task = tid"
    by simp_all
  from handle_message_completes [OF nf st reg f t]
  show "handle_message flt chat (Some msg) d =
          (AnswerAccepted tid, mark_recipient_completed tid chat d)" .
  from find_in_set [OF f] have "task \<in> set (select_active_tasks chat d)" by simp
  from select_active_tasks_memD [OF this] t
  have "\<exists>t \<in> set (tasks d). \<exists>tr \<in> set (task_recipients d).
           t_id t = tid \<and> tr_task_id tr = tid \<and> t_status t = ''active''"
    by auto
  from found_task_is_active [OF pk this]
  show "task_status d tid = Some ''active''" and "recipients_of d tid \<noteq> []" by simp_all
next
  assume a: "(reply_text = Some media_msg \<or>
       ((reply_text = None \<or> reply_text = Some []) \<and> reply_caption = Some media_msg)) \<and>
      media_msg \<noteq> [] \<and> extract_task_text media_msg = Some wanted \<and> wanted \<noteq> [] \<and>
      select_active_task_by_text chat wanted d = found # others \<and> fst found = tid"
  then have o: "(reply_text = Some media_msg \<or>
             ((reply_text = None \<or> reply_text = Some []) \<and> reply_caption = Some media_msg)) \<and>
             media_msg \<noteq> []"
    and e: "extract_task_text media_msg = Some wanted" and ne: "wanted \<noteq> []"
    and f: "select_active_task_by_text chat wanted d = found # others" and t: "fst found = tid"
    by simp_all
  from handle_media_message_completes [OF nf o e ne f t]
  show "handle_media_message flt chat file_id file_type reply_text reply_caption d =
          (MediaAccepted tid,
           (mark_recipient_completed tid chat d)
             \<lparr>response_media := response_media d @
                [\<lparr>rm_task_id = tid, rm_chat_id = chat, rm_file_id = file_id,
                  rm_file_type = file_type\<rparr>]\<rparr>)" .
  from f have "found \<in> set (select_active_task_by_text chat wanted d)" by simp
  from select_active_task_by_text_memD [OF this] t
  have "\<exists>t \<in> set (tasks d). \<exists>tr \<in> set (task_recipients d).
           t_id t = tid \<and> tr_task_id tr = tid \<and> t_status t = ''active''"
    by auto
  from found_task_is_active [OF pk this]
  show "task_status d tid = Some ''active''" and "recipients_of d tid \<noteq> []" by simp_all
next
  assume "task_status d tid = Some ''active'' \<and> recipients_of d tid \<noteq> []"
  then have act: "task_status d tid = Some ''active''" and ne: "recipients_of d tid \<noteq> []"
    by simp_all
  from marked_step [OF act ne]
  show "(let d' = mark_recipient_completed tid chat d in
            recipients_of d' tid \<noteq> [] \<and>
            (\<forall>tr \<in> set (recipients_of d' tid).
               tr_chat_id tr = Some chat \<longrightarrow> tr_status tr = ''completed'') \<and>
            (task_status d' tid = Some ''completed'' \<longleftrightarrow> all_completed d' tid) \<and>
            (all_completed d' tid \<longleftrightarrow>
               list_all (\<lambda>tr. tr_chat_id tr = Some chat \<or> tr_status tr = ''completed'')
                 (recipients_of d tid)) \<and>
            (\<forall>u. u \<noteq> tid \<longrightarrow>
               task_status d' u = task_status d u \<and> recipients_of d' u = recipients_of d u) \<and>
            (\<forall>u. task_status d' u = Some ''completed'' \<longrightarrow>
               task_status d u = Some ''completed'' \<or> (u = tid \<and> all_completed d' u)))" .
qed

text \<open>Witness: chat 20 is the last pending recipient of task 1 in \<open>store_with_id\<close>;
  each of the three operations accepts its completion and closes the task. In
  \<open>store_unregistered\<close> chat 30 is pending as well, and the reply of chat 20 leaves the
  task active.\<close>

theorem completion_closes_task_witness:
  "tasks_pk store_with_id \<and>
   select_pending_recipient 1 20 store_with_id = Inr [(''pending'', ascii ''Buy milk'')] \<and>
   select_active_tasks 20 store_with_id = [(1, ascii ''Buy milk'', ''pending'')] \<and>
   select_active_task_by_text 20 (ascii ''Buy milk'') store_with_id = [(1, ''pending'')] \<and>
   task_status store_with_id 1 = Some ''active'' \<and>
   update_task_status no_fault 1 20 ''completed'' store_with_id =
     (Inr (), mark_recipient_completed 1 20 store_with_id) \<and>
   handle_message no_fault 20 (Some announcement) store_with_id =
     (AnswerAccepted 1, mark_recipient_completed 1 20 store_with_id) \<and>
   handle_media_message no_fault 20 (ascii ''f'') ''photo'' (Some announcement) None store_with_id =
     (MediaAccepted 1,
      (mark_recipient_completed 1 20 store_with_id)
        \<lparr>response_media := response_media store_with_id @
           [\<lparr>rm_task_id = 1, rm_chat_id = 20, rm_file_id = ascii ''f'',
             rm_file_type = ''photo''\<rparr>]\<rparr>) \<and>
   all_completed (mark_recipient_completed 1 20 store_with_id) 1 \<and>
   task_status (mark_recipient_completed 1 20 store_with_id) 1 = Some ''completed'' \<and>
   handle_message no_fault 20 (Some announcement) store_unregistered =
     (AnswerAccepted 1, mark_recipient_completed 1 20 store_unregistered) \<and>
   \<not> all_completed (mark_recipient_completed 1 20 store_unregistered) 1 \<and>
   task_status (mark_recipient_completed 1 20 store_unregistered) 1 = Some ''active''"
proof -
  let ?d = store_with_id and ?e = store_unregistered
  have pk: "tasks_pk ?d" and pke: "tasks_pk ?e"
    by (simp_all add: store_with_id_def store_unregistered_def store_milk_def store_defs)
  have nf: "\<forall>i. \<not> no_fault i" by (simp add: no_fault_def)
  have sp: "select_pending_recipient 1 20 ?d = Inr [(''pending'', ascii ''Buy milk'')]"
    by (simp add: uts_eval)
  have st: "startswith announcement new_task_marker"
    by (simp add: announcement_def string_defs)
  have reg: "select_chat_title 20 ?d \<noteq> []" "select_chat_title 20 ?e \<noteq> []"
    by (simp_all add: store_with_id_def store_unregistered_def store_milk_def store_defs)
  have sa: "select_active_tasks 20 ?d = [(1, ascii ''Buy milk'', ''pending'')]"
    "select_active_tasks 20 ?e = [(1, ascii ''Buy milk'', ''pending'')]"
    by (simp_all add: store_with_id_def store_unregistered_def store_milk_def store_defs)
  have tx: "py_strip (ascii ''Buy milk'') = py_strip (drop (length new_task_marker) announcement)"
    by (simp add: announcement_def string_defs)
  have f: "find (\<lambda>task. py_strip (fst (snd task)) =
                  py_strip (drop (length new_task_marker) announcement))
        (select_active_tasks 20 ?d) = Some (1, ascii ''Buy milk'', ''pending'')"
    "find (\<lambda>task. py_strip (fst (snd task)) =
                  py_strip (drop (length new_task_marker) announcement))
        (select_active_tasks 20 ?e) = Some (1, ascii ''Buy milk'', ''pending'')"
    by (simp_all add: sa tx)
  have ne: "announcement \<noteq> []" by (simp add: announcement_def string_defs)
  have ex: "extract_task_text announcement = Some (ascii ''Buy milk'')"
    by (simp add: announcement_def string_defs store_defs)
  have w: "ascii ''Buy milk'' \<noteq> []" by (simp add: ascii_def)
  have sm: "select_active_task_by_text 20 (ascii ''Buy milk'') ?d = [(1, ''pending'')]"
    by (simp add: store_with_id_def store_milk_def store_defs ascii_def)
  have last: "list_all (\<lambda>tr. tr_chat_id tr = Some 20 \<or> tr_status tr = ''completed'')
                (recipients_of ?d 1)"
    "\<not> list_all (\<lambda>tr. tr_chat_id tr = Some 20 \<or> tr_status tr = ''completed'')
                (recipients_of ?e 1)"
    by (simp_all add: store_with_id_def store_unregistered_def store_milk_def store_defs)
  note th = completion_closes_task [OF pk nf, of 1 20 "(''pending'', ascii ''Buy milk'')" "[]"
      announcement "(1, ascii ''Buy milk'', ''pending'')" "Some announcement" announcement None
      "ascii ''Buy milk''" "(1, ''pending'')" "[]" "ascii ''f''" "''photo''"]
  note the = completion_closes_task [OF pke nf, of 1 20 "(''pending'', ascii ''Buy milk'')" "[]"
      announcement "(1, ascii ''Buy milk'', ''pending'')" "Some announcement" announcement None
      "ascii ''Buy milk''" "(1, ''pending'')" "[]" "ascii ''f''" "''photo''"]
  from th [THEN conjunct1] sp
  have u: "update_task_status no_fault 1 20 ''completed'' ?d =
     (Inr (), mark_recipient_completed 1 20 ?d)"
    and act: "task_status ?d 1 = Some ''active''" and rne: "recipients_of ?d 1 \<noteq> []"
    by simp_all
  from th [THEN conjunct2, THEN conjunct1] st reg(1) f(1)
  have h: "handle_message no_fault 20 (Some announcement) ?d =
     (AnswerAccepted 1, mark_recipient_completed 1 20 ?d)"
    by simp
  from th [THEN conjunct2, THEN conjunct2, THEN conjunct1] ne ex w sm
  have m: "handle_media_message no_fault 20 (ascii ''f'') ''photo'' (Some announcement) None ?d =
     (MediaAccepted 1,
      (mark_recipient_completed 1 20 ?d)
        \<lparr>response_media := response_media ?d @
           [\<lparr>rm_task_id = 1, rm_chat_id = 20, rm_file_id = ascii ''f'',
             rm_file_type = ''photo''\<rparr>]\<rparr>)"
    by simp
  from th [THEN conjunct2, THEN conjunct2, THEN conjunct2] act rne last(1)
  have c: "all_completed (mark_recipient_completed 1 20 ?d) 1"
    and t: "task_status (mark_recipient_completed 1 20 ?d) 1 = Some ''completed''"
    by (simp_all add: Let_def)
  from the [THEN conjunct2, THEN conjunct1] st reg(2) f(2)
  have he: "handle_message no_fault 20 (Some announcement) ?e =
     (AnswerAccepted 1, mark_recipient_completed 1 20 ?e)"
    and acte: "task_status ?e 1 = Some ''active''" and rnee: "recipients_of ?e 1 \<noteq> []"
    by simp_all
  from the [THEN conjunct2, THEN conjunct2, THEN conjunct2] acte rnee last(2)
  have ce: "\<not> all_completed (mark_recipient_completed 1 20 ?e) 1"
    and nc: "task_status (mark_recipient_completed 1 20 ?e) 1 \<noteq> Some ''completed''"
    by (simp_all add: Let_def)
  have "task_status (mark_recipient_completed 1 20 ?e) 1 = Some ''active''"
    using ce acte by (simp add: task_status_marked)
  with pk sp sa(1) sm act u h m c t he ce show ?thesis by (intro conjI)
qed


subsection \<open>Unregistered chats\<close>

lemma select_chat_title_empty:
  "select_chat_title chat d = [] \<longleftrightarrow> chat \<notin> c_chat_id ` set (chats d)"
  by (auto simp: select_chat_title_def filter_empty_conv image_iff)

lemma mark_and_recount_chats:
  "mark_and_recount flt s t c (d\<lparr>chats := cs\<rparr>) =
     map_option (\<lambda>d'. d'\<lparr>chats := cs\<rparr>) (mark_and_recount flt s t c d)"
  by (simp add: mark_and_recount_def update_recipient_status_def count_recipients_def
      set_task_completed_def Let_def)

lemma select_active_task_by_text_chats [simp]:
  "select_active_task_by_text chat wanted (d\<lparr>chats := cs\<rparr>) =
     select_active_task_by_text chat wanted d"
  by (simp add: select_active_task_by_text_def)

lemma insert_response_media_chats:
  "insert_response_media t c f k (d\<lparr>chats := cs\<rparr>) = (insert_response_media t c f k d)\<lparr>chats := cs\<rparr>"
  by (simp add: insert_response_media_def)

lemma handle_media_message_ignores_chats:
  "handle_media_message flt chat file_id file_type reply_text reply_caption (d\<lparr>chats := cs\<rparr>) =
     (fst (handle_media_message flt chat file_id file_type reply_text reply_caption d),
      (snd (handle_media_message flt chat file_id file_type reply_text reply_caption d))\<lparr>chats := cs\<rparr>)"
  unfolding handle_media_message_def Let_def
  by (simp add: insert_response_media_chats mark_and_recount_chats
        split: option.split list.split)

lemma handle_message_unregistered:
  assumes "startswith msg new_task_marker"
    and "chat \<notin> c_chat_id ` set (chats d)"
  shows "handle_message flt chat (Some msg) d =
           (if flt 0 \<or> flt 1 then AnswerProcessingError else ChatNotRegistered, d)"
proof -
  have "new_task_marker \<noteq> []" by (simp add: new_task_marker_def)
  from py_split1_startswith [OF this assms(1)]
  have sp: "py_split1 msg new_task_marker = [[], drop (length new_task_marker) msg]" .
  have no: "select_chat_title chat d = []"
    using assms(2) by (simp add: select_chat_title_empty)
  show ?thesis
    unfolding handle_message_def Let_def
    by (simp add: sp no assms(1))
qed

text \<open>
  \<^bold>\<open>C10.\<close> A text reply to an announcement (a message that starts with the
  announcement prefix) from a chat without a row in \<open>chats\<close> is answered ``chat not
  registered'' and leaves the store as it was, whatever tasks and recipient rows the store
  holds; only a storage fault at the connection or at the chat lookup replaces the answer
  by the error answer. The media-reply handler never reads \<open>chats\<close>: on a store whose
  \<open>chats\<close> table is replaced by any other it gives the same answer and does the same
  writes.
\<close>

theorem unregistered_chat_rejected:
  assumes "startswith msg new_task_marker"
    and "chat \<notin> c_chat_id ` set (chats d)"
  shows "handle_message flt chat (Some msg) d =
           (if flt 0 \<or> flt 1 then AnswerProcessingError else ChatNotRegistered, d) \<and>
         handle_media_message flt' chat file_id file_type reply_text reply_caption (d\<lparr>chats := cs\<rparr>) =
           (fst (handle_media_message flt' chat file_id file_type reply_text reply_caption d),
            (snd (handle_media_message flt' chat file_id file_type reply_text reply_caption d))
              \<lparr>chats := cs\<rparr>)"
  using handle_message_unregistered [OF assms] handle_media_message_ignores_chats by (rule conjI)

text \<open>Witness: chat 30 of \<open>store_unregistered\<close> has a pending recipient row for the task
  it replies to. Its text reply is rejected; its media reply is accepted, also when no
  chat is registered at all.\<close>

theorem unregistered_chat_rejected_witness:
  "startswith announcement new_task_marker \<and>
   30 \<notin> c_chat_id ` set (chats store_unregistered) \<and>
   select_active_tasks 30 store_unregistered = [(1, ascii ''Buy milk'', ''pending'')] \<and>
   handle_message no_fault 30 (Some announcement) store_unregistered =
     (ChatNotRegistered, store_unregistered) \<and>
   fst (handle_media_message no_fault 30 (ascii ''f'') ''photo'' (Some announcement) None
          (store_unregistered\<lparr>chats := []\<rparr>)) = MediaAccepted 1"
proof -
  have a: "startswith announcement new_task_marker"
    by (simp add: announcement_def string_defs)
  have b: "30 \<notin> c_chat_id ` set (chats store_unregistered)"
    by (simp add: store_unregistered_def store_milk_def store_defs)
  have c: "select_active_tasks 30 store_unregistered = [(1, ascii ''Buy milk'', ''pending'')]"
    by (simp add: store_unregistered_def store_milk_def store_defs string_defs)
  have r: "fst (handle_media_message no_fault 30 (ascii ''f'') ''photo'' (Some announcement) None
          store_unregistered) = MediaAccepted 1"
    by (simp add: handle_media_message_def announcement_def store_unregistered_def store_milk_def
        string_defs store_defs Let_def)
  note th = unregistered_chat_rejected [OF a b, of no_fault no_fault "ascii ''f''" "''photo''"
      "Some announcement" None "[]"]
  from th [THEN conjunct1]
  have t: "handle_message no_fault 30 (Some announcement) store_unregistered =
     (ChatNotRegistered, store_unregistered)"
    by (simp add: no_fault_def)
  from th [THEN conjunct2]
  have m: "fst (handle_media_message no_fault 30 (ascii ''f'') ''photo'' (Some announcement) None
          (store_unregistered\<lparr>chats := []\<rparr>)) = MediaAccepted 1"
    by (simp only: fst_conv r)
  from a b c t m show ?thesis by (intro conjI)
qed


subsection \<open>\<open>update_task_status\<close> without a pending row\<close>

lemma select_pending_recipient_Nil:
  assumes "''id'' \<in> set (task_recipients_extra_columns d)"
    and "\<And>tr. tr \<in> set (task_recipients d) \<Longrightarrow> tr_task_id tr = task \<Longrightarrow>
           tr_chat_id tr = Some chat \<Longrightarrow> tr_status tr = ''completed''"
  shows "select_pending_recipient task chat d = Inr []"
proof -
  have "[(tr_status tr, t_text t).
                  tr \<leftarrow> task_recipients d, t \<leftarrow> tasks d,
                  tr_task_id tr = t_id t \<and> t_id t = task \<and> tr_chat_id tr = Some chat \<and>
                  t_status t = ''active'' \<and> tr_status tr \<noteq> ''completed''] = []"
    using assms(2) by (fastforce simp: concat_eq_Nil_conv)
  with assms(1) show ?thesis by (simp add: select_pending_recipient_def)
qed

lemma mark_and_recount_extra_columns:
  "mark_and_recount flt s t c d = Some d' \<Longrightarrow>
     task_recipients_extra_columns d' = task_recipients_extra_columns d"
  by (auto simp: mark_and_recount_def update_recipient_status_def set_task_completed_def Let_def
      split: if_splits)

lemma task_recipients_update_recipient_status:
  "task_recipients (update_recipient_status s t c d) =
     map (\<lambda>r. if tr_task_id r = t \<and> tr_chat_id r = Some c then r\<lparr>tr_status := s\<rparr> else r)
       (task_recipients d)"
  by (simp add: update_recipient_status_def)

lemma no_pending_after_mark:
  assumes m: "mark_and_recount flt ''completed'' task chat d = Some d'"
    and col: "''id'' \<in> set (task_recipients_extra_columns d)"
  shows "select_pending_recipient task chat d' = Inr []"
proof (rule select_pending_recipient_Nil)
  show "''id'' \<in> set (task_recipients_extra_columns d')"
    using mark_and_recount_extra_columns [OF m] col by simp
next
  fix tr
  assume a: "tr \<in> set (task_recipients d')" and b: "tr_task_id tr = task"
    and c: "tr_chat_id tr = Some chat"
  have "task_recipients d' =
     map (\<lambda>r. if tr_task_id r = task \<and> tr_chat_id r = Some chat
               then r\<lparr>tr_status := ''completed''\<rparr> else r) (task_recipients d)"
    using mark_and_recount_recipients [OF m]
    by (simp only: task_recipients_update_recipient_status)
  with a have "tr \<in> set (map (\<lambda>r. if tr_task_id r = task \<and> tr_chat_id r = Some chat
               then r\<lparr>tr_status := ''completed''\<rparr> else r) (task_recipients d))"
    by simp
  from marked_row_completed [OF this b c] show "tr_status tr = ''completed''" .
qed

lemma update_task_status_twice:
  assumes "update_task_status flt task chat ''completed'' d = (Inr (), d')"
  shows "select_pending_recipient task chat d' = Inr []"
proof (cases "select_pending_recipient task chat d")
  case (Inl e)
  with assms show ?thesis by (simp add: update_task_status_def split: if_split_asm)
next
  case (Inr found)
  then have col: "''id'' \<in> set (task_recipients_extra_columns d)"
    by (simp add: select_pending_recipient_def split: if_split_asm)
  show ?thesis
  proof (cases found)
    case Nil
    with Inr assms show ?thesis by (simp add: update_task_status_def split: if_split_asm)
  next
    case (Cons r rs)
    with Inr assms have "mark_and_recount (\<lambda>i. flt (i + 2)) ''completed'' task chat d = Some d'"
      by (simp add: update_task_status_def split: if_split_asm option.split_asm)
    from no_pending_after_mark [OF this col] show ?thesis .
  qed
qed

lemma update_task_status_not_found:
  assumes "select_pending_recipient task chat d = Inr []"
  shows "update_task_status flt task chat status d =
           (if flt 0 \<or> flt 1 then Inl StorageError else Inr (), d)"
  using assms by (simp add: update_task_status_def)

lemma update_task_status_raises_unchanged:
  "update_task_status flt task chat status d = (Inl e, d') \<Longrightarrow> d' = d"
  by (simp add: update_task_status_def split: if_split_asm sum.split_asm list.split_asm option.split_asm)

lemma update_task_status_no_id_column:
  assumes "''id'' \<notin> set (task_recipients_extra_columns d)"
  shows "update_task_status flt task chat status d =
           (if flt 0 \<or> flt 1 then Inl StorageError else Inl NoSuchColumn, d)"
  using assms by (simp add: update_task_status_def select_pending_recipient_def)

text \<open>
  \<^bold>\<open>C2.\<close> (amended) \<open>update_task_status\<close> raises nothing when its lookup finds
  no active task with a pending recipient row for the pair: it logs, rolls back and
  returns normally, and the store is unchanged (only a storage fault at the connection or
  at the lookup makes the call raise). A second call for the pair after a call that
  returned normally is such a call. Whenever the function does raise, the store is the
  one before the call.
\<close>

theorem update_task_status_not_found_returns:
  "(select_pending_recipient task chat d = Inr [] \<longrightarrow>
      update_task_status flt task chat status d =
        (if flt 0 \<or> flt 1 then Inl StorageError else Inr (), d)) \<and>
   (update_task_status flt task chat ''completed'' d = (Inr (), d') \<longrightarrow>
      update_task_status flt2 task chat status d' =
        (if flt2 0 \<or> flt2 1 then Inl StorageError else Inr (), d')) \<and>
   (update_task_status flt task chat status d = (Inl e, d') \<longrightarrow> d' = d)"
proof (intro conjI impI)
  assume "select_pending_recipient task chat d = Inr []"
  then show "update_task_status flt task chat status d =
        (if flt 0 \<or> flt 1 then Inl StorageError else Inr (), d)"
    by (rule update_task_status_not_found)
next
  assume "update_task_status flt task chat ''completed'' d = (Inr (), d')"
  from update_task_status_not_found [OF update_task_status_twice [OF this]]
  show "update_task_status flt2 task chat status d' =
        (if flt2 0 \<or> flt2 1 then Inl StorageError else Inr (), d')" .
next
  assume "update_task_status flt task chat status d = (Inl e, d')"
  then show "d' = d" by (rule update_task_status_raises_unchanged)
qed

text \<open>C2 as stated fails: chat 10 has already completed task 1, there is no pending row
  for the pair, and the call returns normally instead of raising.\<close>

theorem update_task_status_silent_counterexample:
  "update_task_status no_fault 1 10 ''completed'' store_with_id = (Inr (), store_with_id)"
  by (simp add: update_task_status_def select_pending_recipient_def store_with_id_def
      store_milk_def store_defs)


text \<open>Witness: the not-found call for chat 10, a successful completion for chat 20
  followed by a second call for the same pair, and a commit that fails.\<close>

theorem update_task_status_not_found_returns_witness:
  "select_pending_recipient 1 10 store_with_id = Inr [] \<and>
   update_task_status no_fault 1 10 ''completed'' store_with_id = (Inr (), store_with_id) \<and>
   select_pending_recipient 1 20 store_with_id = Inr [(''pending'', ascii ''Buy milk'')] \<and>
   fst (update_task_status no_fault 1 20 ''completed'' store_with_id) = Inr () \<and>
   task_status (snd (update_task_status no_fault 1 20 ''completed'' store_with_id)) 1 =
     Some ''completed'' \<and>
   update_task_status no_fault 1 20 ''completed''
       (snd (update_task_status no_fault 1 20 ''completed'' store_with_id)) =
     (Inr (), snd (update_task_status no_fault 1 20 ''completed'' store_with_id)) \<and>
   update_task_status (\<lambda>i. i = 5) 1 20 ''completed'' store_with_id =
     (Inl StorageError, store_with_id)"
proof -
  let ?d' = "snd (update_task_status no_fault 1 20 ''completed'' store_with_id)"
  have a: "select_pending_recipient 1 10 store_with_id = Inr []"
    by (simp add: uts_eval)
  have b: "select_pending_recipient 1 20 store_with_id = Inr [(''pending'', ascii ''Buy milk'')]"
    by (simp add: uts_eval)
  have c: "fst (update_task_status no_fault 1 20 ''completed'' store_with_id) = Inr ()"
    by (simp add: uts_eval)
  then have run: "update_task_status no_fault 1 20 ''completed'' store_with_id = (Inr (), ?d')"
    by (metis prod.collapse)
  have ch: "task_status ?d' 1 = Some ''completed''"
    by (simp add: uts_eval)
  have f: "update_task_status (\<lambda>i. i = 5) 1 20 ''completed'' store_with_id =
      (Inl StorageError, store_with_id)"
    by (simp add: uts_eval)
  note th = update_task_status_not_found_returns
    [of 1 10 store_with_id no_fault "''completed''" ?d' no_fault StorageError]
  note th2 = update_task_status_not_found_returns
    [of 1 20 store_with_id no_fault "''completed''" ?d' no_fault StorageError]
  from th [THEN conjunct1] a
  have r1: "update_task_status no_fault 1 10 ''completed'' store_with_id = (Inr (), store_with_id)"
    by (simp add: no_fault_def)
  from th2 [THEN conjunct2, THEN conjunct1] run
  have r2: "update_task_status no_fault 1 20 ''completed'' ?d' = (Inr (), ?d')"
    by (simp add: no_fault_def)
  from a r1 b c ch r2 f show ?thesis by (intro conjI)
qed


subsection \<open>Matching a reply to a task\<close>


text \<open>
  \<^bold>\<open>C3.\<close> The code at a failing input: the task text was stored as ``Buy milk''
  followed by a space. Both handlers extract the trimmed text ``Buy milk'' from the
  announcement. The text-reply handler trims the stored text as well and accepts the
  reply; the media-reply handler compares the untrimmed stored text in SQL
  (\<open>t.text = ?\<close>), finds no task and changes nothing.
\<close>

theorem media_reply_compares_untrimmed_text:
  "extract_task_text announcement_trailing = Some (ascii ''Buy milk'') \<and>
   fst (handle_message no_fault 20 (Some announcement_trailing) store_trailing) = AnswerAccepted 1 \<and>
   handle_media_message no_fault 20 (ascii ''f'') ''photo'' (Some announcement_trailing) None
       store_trailing = (NoActiveTask, store_trailing)"
  by (simp add: reply_eval announcement_trailing_def store_trailing_def store_milk_def)

text \<open>
  \<^bold>\<open>C5.\<close> The code at a failing input: two active tasks with the text ``Buy milk'',
  created at times 100 and 200, both pending for chat 20. The text-reply handler orders
  the candidates by \<open>created_at DESC\<close> and completes task 2, the most recent one; the
  media-reply handler has no \<open>ORDER BY\<close>, takes the first row of the join and completes
  task 1, the oldest one.
\<close>

theorem media_reply_takes_oldest_task:
  "fst (handle_message no_fault 20 (Some announcement) store_twice) = AnswerAccepted 2 \<and>
   fst (handle_media_message no_fault 20 (ascii ''f'') ''photo'' (Some announcement) None
          store_twice) = MediaAccepted 1"
  by (simp add: reply_eval announcement_def store_twice_def store_milk_def)


subsection \<open>Empty task text\<close>

text \<open>
  \<^bold>\<open>C8.\<close> (amended) The empty task text is rejected by the caller of
  \<open>create_task\<close>: on ``Confirm'', \<open>handle_recipient_selection\<close> answers a missing or
  empty task text with ``task text not found'' before it calls \<open>create_task\<close>; no
  database call is made, nothing is sent, and the store is unchanged.
\<close>

theorem empty_task_text_rejected_by_handler:
  "handle_recipient_selection flt send_ok now user_id None media_files selected_titles
       selection_type d =
     (TaskTextMissing,
      \<lparr>fo_db = d, fo_calls = 0, success_count = 0, total_count = 0, fo_sent = []\<rparr>) \<and>
   handle_recipient_selection flt send_ok now user_id (Some []) media_files selected_titles
       selection_type d =
     (TaskTextMissing,
      \<lparr>fo_db = d, fo_calls = 0, success_count = 0, total_count = 0, fo_sent = []\<rparr>)"
  by (simp add: handle_recipient_selection_def)

text \<open>C8 as stated fails: \<open>create_task\<close> itself validates nothing. Called with the
  empty text on a new database it inserts an active task row with that text and returns
  (the id it returns is the \<open>last_insert_rowid()\<close> of a fresh connection, 0).\<close>

theorem create_task_accepts_empty_text:
  "create_task no_fault 5 [] 7 (init_database None) =
     (Inr 0, (init_database None)
        \<lparr>tasks := [\<lparr>t_id = 1, t_text = [], t_status = ''active'', t_created_by = 7,
                     t_created_at = 5\<rparr>],
         tasks_seq := 1\<rparr>)"
  by (simp add: create_task_def execute_query_def insert_task_def select_last_insert_rowid_def
      init_database_def no_fault_def)


subsection \<open>Storage failures\<close>





lemma handle_message_unchanged:
  "handle_message flt chat original d = (reply, d') \<Longrightarrow> d' = d \<or> (\<exists>tid. reply = AnswerAccepted tid)"
  by (simp add: handle_message_def Let_def
      split: option.split_asm list.split_asm if_split_asm) blast

lemma handle_media_message_unchanged:
  "handle_media_message flt chat f k rt rc d = (reply, d') \<Longrightarrow> d' = d \<or> (\<exists>tid. reply = MediaAccepted tid)"
  by (simp add: handle_media_message_def Let_def
      split: option.split_asm list.split_asm if_split_asm) blast+

lemma active_task_rows_reads: "\<exists>rows. active_task_rows last_rowid d = Inr (rows, d)"
proof -
  have "map_sum id snd (active_task_rows last_rowid d) = Inr d"
    unfolding active_task_rows_def Let_def by (simp only: map_sum.simps snd_conv)
  then show ?thesis
    by (cases "active_task_rows last_rowid d") auto
qed

lemma get_active_tasks_always_empty: "get_active_tasks fails d = (Inr [], d)"
proof -
  from active_task_rows_reads [of 0 d] obtain rows where
    "active_task_rows 0 d = Inr (rows, d)" by blast
  then show ?thesis
    by (simp add: get_active_tasks_def execute_query_def select_active_task_info_def)
qed
















subsection \<open>The fan-out\<close>


lemma length_attempts [simp]: "length (attempts send_ok k xs) = length xs"
  by (induction xs arbitrary: k) auto

lemma succeeded_append [simp]: "succeeded (xs @ ys) = succeeded xs @ succeeded ys"
  by (simp add: succeeded_def)

lemma recipient_rows_append [simp]:
  "recipient_rows t (xs @ ys) = recipient_rows t xs @ recipient_rows t ys"
  by (simp add: recipient_rows_def)















lemma resolve_targets_Nil [simp]: "resolve_targets sel [] d = []"
  by (simp add: resolve_targets_def)













lemma create_task_returns_zero:
  assumes "create_task flt now task_text user_id d = (Inr task_id, d1)"
  shows "task_id = 0"
  using assms
  by (auto simp: create_task_def execute_query_def insert_task_def select_last_insert_rowid_def
      Let_def split: if_split_asm)


lemma map_fst_attempts [simp]: "map fst (attempts send_ok k xs) = map fst xs"
  by (induction xs arbitrary: k) auto

lemma unregistered_Nil [simp]: "unregistered t [] d"
  by (simp add: unregistered_def)







lemmas fan_out_eval = handle_recipient_selection_def create_task_def execute_query_def
  insert_task_def select_last_insert_rowid_def add_task_recipient_def insert_task_recipient_def
  select_chat_id_def store_chats_def init_database_def no_fault_def ascii_def Let_def


text \<open>In the fan-out, \<open>create_task\<close> returns the \<open>last_insert_rowid()\<close> of a fresh
  connection, which is 0 and not the id of the task it has inserted: in the run of the
  specification's example the task has id 1 and the recipient rows are filed under task
  id 0.\<close>

lemma fan_out_rows_keyed_by_returned_id:
  "map t_id (tasks (fo_db (snd (handle_recipient_selection no_fault (\<lambda>k chat_id. chat_id \<noteq> 2) 5 7
          (Some (ascii ''Buy milk'')) [] [ascii ''A'', ascii ''B'', ascii ''C''] (Some ''chat'')
          store_chats)))) = [1] \<and>
   map tr_task_id (task_recipients (fo_db (snd (handle_recipient_selection no_fault
          (\<lambda>k chat_id. chat_id \<noteq> 2) 5 7
          (Some (ascii ''Buy milk'')) [] [ascii ''A'', ascii ''B'', ascii ''C''] (Some ''chat'')
          store_chats)))) = [0, 0]"
  by (simp add: fan_out_eval)




subsection \<open>Statuses only move forward\<close>

lemma grows_refl: "(\<And>x. R x x) \<Longrightarrow> grows R xs xs"
  by (simp add: grows_def)

lemma grows_map: "(\<And>x. x \<in> set xs \<Longrightarrow> R x (f x)) \<Longrightarrow> grows R xs (map f xs)"
  by (simp add: grows_def)

lemma grows_append: "grows R xs ys \<Longrightarrow> grows R xs (ys @ zs)"
  by (auto simp: grows_def nth_append)

lemma grows_trans:
  assumes "\<And>x y z. R x y \<Longrightarrow> R y z \<Longrightarrow> R x z"
    and "grows R xs ys" and "grows R ys zs"
  shows "grows R xs zs"
  using assms(2,3) unfolding grows_def
  by (meson assms(1) le_trans less_le_trans)

lemma task_changes_to_refl: "task_changes_to t t"
  by (simp add: task_changes_to_def)

lemma task_changes_to_trans:
  "task_changes_to a b \<Longrightarrow> task_changes_to b c \<Longrightarrow> task_changes_to a c"
  by (auto simp: task_changes_to_def)

lemma recipient_changes_to_refl: "recipient_changes_to t t"
  by (simp add: recipient_changes_to_def)

lemma recipient_changes_to_trans:
  "recipient_changes_to a b \<Longrightarrow> recipient_changes_to b c \<Longrightarrow> recipient_changes_to a c"
  by (auto simp: recipient_changes_to_def)

lemma recipient_kept_refl: "recipient_kept t t"
  by (simp add: recipient_kept_def)

lemma recipient_kept_trans:
  assumes "recipient_kept a b" and "recipient_kept b c"
  shows "recipient_kept a c"
proof (cases "tr_status a = ''completed''")
  case True
  with assms show ?thesis by (simp add: recipient_kept_def)
next
  case False
  with assms(1) have b: "b = a\<lparr>tr_status := tr_status b\<rparr>" by (simp add: recipient_kept_def)
  from assms(2) have "c = b\<lparr>tr_status := tr_status c\<rparr>"
    by (cases "tr_status b = ''completed''") (simp_all add: recipient_kept_def)
  with b have "c = a\<lparr>tr_status := tr_status c\<rparr>"
    by (metis task_recipient.update_convs(4) task_recipient.surjective task_recipient.select_convs)
  with False show ?thesis by (simp add: recipient_kept_def)
qed


lemma key_mem:
  "r \<in> set rows \<Longrightarrow> tr_chat_id r \<noteq> None \<Longrightarrow>
   (tr_task_id r, tr_chat_id r) \<in> set [(tr_task_id tr, tr_chat_id tr). tr \<leftarrow> rows, tr_chat_id tr \<noteq> None]"
  by (induction rows) auto

lemma pk_unique:
  assumes "distinct [(tr_task_id tr, tr_chat_id tr). tr \<leftarrow> rows, tr_chat_id tr \<noteq> None]"
    and "r \<in> set rows" and "r0 \<in> set rows"
    and "tr_task_id r = tr_task_id r0" and "tr_chat_id r = tr_chat_id r0"
    and "tr_chat_id r \<noteq> None"
  shows "r = r0"
  using assms
proof (induction rows)
  case Nil
  then show ?case by simp
next
  case (Cons x xs)
  have tail: "distinct [(tr_task_id tr, tr_chat_id tr). tr \<leftarrow> xs, tr_chat_id tr \<noteq> None]"
    using Cons.prems(1) by (simp split: if_split_asm)
  show ?case
  proof (cases "r = x")
    case True
    show ?thesis
    proof (cases "r0 = x")
      case True
      with \<open>r = x\<close> show ?thesis by simp
    next
      case False
      with Cons.prems(3) have "r0 \<in> set xs" by simp
      from key_mem [OF this] Cons.prems(4-6)
      have "(tr_task_id x, tr_chat_id x) \<in>
          set [(tr_task_id tr, tr_chat_id tr). tr \<leftarrow> xs, tr_chat_id tr \<noteq> None]"
        using True by simp
      with Cons.prems(1,6) True show ?thesis by simp
    qed
  next
    case False
    with Cons.prems(2) have rin: "r \<in> set xs" by simp
    show ?thesis
    proof (cases "r0 = x")
      case True
      from key_mem [OF rin Cons.prems(6)] Cons.prems(4,5)
      have "(tr_task_id x, tr_chat_id x) \<in>
          set [(tr_task_id tr, tr_chat_id tr). tr \<leftarrow> xs, tr_chat_id tr \<noteq> None]"
        using True by simp
      with Cons.prems(1,5,6) True show ?thesis by simp
    next
      case False
      with Cons.prems(3) have "r0 \<in> set xs" by simp
      from Cons.IH [OF tail rin this Cons.prems(4-6)] show ?thesis .
    qed
  qed
qed

lemma keys_map_status:
  assumes "\<And>r. tr_task_id (f r) = tr_task_id r" and "\<And>r. tr_chat_id (f r) = tr_chat_id r"
  shows "[(tr_task_id tr, tr_chat_id tr). tr \<leftarrow> map f rows, tr_chat_id tr \<noteq> None] =
         [(tr_task_id tr, tr_chat_id tr). tr \<leftarrow> rows, tr_chat_id tr \<noteq> None]"
  by (induction rows) (simp_all add: assms)

lemma keys_mem_ex:
  "k \<in> set [(tr_task_id tr, tr_chat_id tr). tr \<leftarrow> rows, tr_chat_id tr \<noteq> None] \<Longrightarrow>
   \<exists>r \<in> set rows. k = (tr_task_id r, tr_chat_id r)"
  by (induction rows) (auto split: if_split_asm)


lemma mark_and_recount_tasks:
  assumes "mark_and_recount flt s tid chat d = Some d'"
  shows "tasks d' = tasks d \<or>
         tasks d' = map (\<lambda>t. if t_id t = tid then t\<lparr>t_status := ''completed''\<rparr> else t) (tasks d)"
  using assms
  by (auto simp: mark_and_recount_def Let_def set_task_completed_def split: if_split_asm)

lemma mark_grows_tasks:
  assumes "mark_and_recount flt s tid chat d = Some d'"
  shows "grows task_changes_to (tasks d) (tasks d')"
proof -
  have "grows task_changes_to (tasks d)
      (map (\<lambda>t. if t_id t = tid then t\<lparr>t_status := ''completed''\<rparr> else t) (tasks d))"
    by (rule grows_map) (simp add: task_changes_to_def)
  with mark_and_recount_tasks [OF assms] show ?thesis
    by (auto simp: grows_refl task_changes_to_refl)
qed

lemma mark_recipients:
  assumes "mark_and_recount flt s tid chat d = Some d'"
  shows "task_recipients d' =
     map (\<lambda>r. if tr_task_id r = tid \<and> tr_chat_id r = Some chat then r\<lparr>tr_status := s\<rparr> else r)
       (task_recipients d)"
  using mark_and_recount_recipients [OF assms]
  by (simp only: task_recipients_update_recipient_status)

lemma mark_grows_default:
  assumes "mark_and_recount flt ''completed'' tid chat d = Some d'"
  shows "grows recipient_changes_to (task_recipients d) (task_recipients d')"
  unfolding mark_recipients [OF assms]
  by (rule grows_map) (simp add: recipient_changes_to_def)

lemma mark_grows_kept:
  assumes "mark_and_recount flt s tid chat d = Some d'"
    and "s = ''completed'' \<or> (\<forall>r \<in> set (task_recipients d).
           tr_task_id r = tid \<and> tr_chat_id r = Some chat \<longrightarrow> tr_status r \<noteq> ''completed'')"
  shows "grows recipient_kept (task_recipients d) (task_recipients d')"
  unfolding mark_recipients [OF assms(1)]
proof (rule grows_map)
  fix r
  assume "r \<in> set (task_recipients d)"
  with assms(2) show "recipient_kept r
      (if tr_task_id r = tid \<and> tr_chat_id r = Some chat then r\<lparr>tr_status := s\<rparr> else r)"
    by (auto simp: recipient_kept_def)
qed

lemma keys_marked:
  "[(tr_task_id tr, tr_chat_id tr).
      tr \<leftarrow> map (\<lambda>r. if tr_task_id r = tid \<and> tr_chat_id r = Some chat
                       then r\<lparr>tr_status := s\<rparr> else r) rows,
      tr_chat_id tr \<noteq> None] =
   [(tr_task_id tr, tr_chat_id tr). tr \<leftarrow> rows, tr_chat_id tr \<noteq> None]"
  by (rule keys_map_status) simp_all

lemma mark_pk:
  assumes "mark_and_recount flt s tid chat d = Some d'" and "recipients_pk d"
  shows "recipients_pk d'"
  using assms(2) unfolding recipients_pk_def mark_recipients [OF assms(1)] keys_marked .


lemma handle_message_result:
  obtains "snd (handle_message flt chat original d) = d"
  | tid where "mark_and_recount (\<lambda>i. flt (i + 4)) ''completed'' tid chat d =
                 Some (snd (handle_message flt chat original d))"
proof -
  obtain reply d' where h: "handle_message flt chat original d = (reply, d')"
    by (cases "handle_message flt chat original d")
  from handle_message_unchanged [OF h] show ?thesis
  proof
    assume "d' = d"
    with h that(1) show ?thesis by simp
  next
    assume "\<exists>tid. reply = AnswerAccepted tid"
    then obtain tid where "reply = AnswerAccepted tid" ..
    with h have "handle_message flt chat original d = (AnswerAccepted tid, d')" by simp
    from handle_message_AcceptedE [OF this]
    have "mark_and_recount (\<lambda>i. flt (i + 4)) ''completed'' tid chat d = Some d'" by blast
    with h that(2) show ?thesis by simp
  qed
qed

lemma handle_media_message_result:
  obtains "snd (handle_media_message flt chat f k rt rc d) = d"
  | tid where "mark_and_recount (\<lambda>i. flt (i + 4)) ''completed'' tid chat
                 (insert_response_media tid chat f k d) =
                 Some (snd (handle_media_message flt chat f k rt rc d))"
proof -
  obtain reply d' where h: "handle_media_message flt chat f k rt rc d = (reply, d')"
    by (cases "handle_media_message flt chat f k rt rc d")
  from handle_media_message_unchanged [OF h] show ?thesis
  proof
    assume "d' = d"
    with h that(1) show ?thesis by simp
  next
    assume "\<exists>tid. reply = MediaAccepted tid"
    then obtain tid where "reply = MediaAccepted tid" ..
    with h have "handle_media_message flt chat f k rt rc d = (MediaAccepted tid, d')" by simp
    from handle_media_message_AcceptedE [OF this]
    have "mark_and_recount (\<lambda>i. flt (i + 4)) ''completed'' tid chat
            (insert_response_media tid chat f k d) = Some d'" by blast
    with h that(2) show ?thesis by simp
  qed
qed

lemma update_task_status_result:
  obtains "snd (update_task_status flt tid chat s d) = d"
  | row rows where "select_pending_recipient tid chat d = Inr (row # rows)"
      "mark_and_recount (\<lambda>i. flt (i + 2)) s tid chat d = Some (snd (update_task_status flt tid chat s d))"
proof (cases "update_task_status flt tid chat s d")
  case (Pair res d')
  show ?thesis
  proof (cases "d' = d")
    case True
    with Pair that(1) show ?thesis by simp
  next
    case False
    with Pair obtain row rows where
        "select_pending_recipient tid chat d = Inr (row # rows)"
        "mark_and_recount (\<lambda>i. flt (i + 2)) s tid chat d = Some d'"
      by (simp add: update_task_status_def
          split: if_split_asm sum.split_asm list.split_asm option.split_asm)
    with Pair that(2) show ?thesis by simp
  qed
qed

lemma create_task_result:
  "snd (create_task flt now task_text user_id d) = d \<or>
   (\<exists>t. tasks (snd (create_task flt now task_text user_id d)) = tasks d @ [t] \<and>
        task_recipients (snd (create_task flt now task_text user_id d)) = task_recipients d)"
  by (simp add: create_task_def execute_query_def insert_task_def select_last_insert_rowid_def
      Let_def)

lemma add_task_media_result:
  "tasks (snd (execute_query fails (insert_task_media t f k) d)) = tasks d \<and>
   task_recipients (snd (execute_query fails (insert_task_media t f k) d)) = task_recipients d"
  by (simp add: execute_query_def insert_task_media_def)

lemma add_task_recipient_result:
  "snd (add_task_recipient fails t c g d) = d \<or>
   ((c = None \<or> \<not> list_ex (\<lambda>tr. tr_task_id tr = t \<and> tr_chat_id tr = c) (task_recipients d)) \<and>
    tasks (snd (add_task_recipient fails t c g d)) = tasks d \<and>
    task_recipients (snd (add_task_recipient fails t c g d)) =
      task_recipients d @ [\<lparr>tr_task_id = t, tr_chat_id = c, tr_group_id = g,
                             tr_status = ''pending''\<rparr>])"
  by (simp add: add_task_recipient_def execute_query_def insert_task_recipient_def)

lemma get_active_tasks_result: "snd (get_active_tasks fails d) = d"
  by (simp add: get_active_tasks_always_empty)


lemma grows_same: "(\<And>x. R x x) \<Longrightarrow> ys = xs \<Longrightarrow> grows R xs ys"
  by (simp add: grows_refl)

lemma grows_snoc: "(\<And>x. R x x) \<Longrightarrow> ys = xs @ zs \<Longrightarrow> grows R xs ys"
  by (simp add: grows_append grows_refl)

lemma step_tasks: "grows task_changes_to (tasks d) (tasks (apply_operation op d))"
proof (cases op)
  case (TextReply flt chat original)
  show ?thesis unfolding TextReply apply_operation.simps
    by (rule handle_message_result [of flt chat original d])
       (simp_all add: grows_refl task_changes_to_refl mark_grows_tasks)
next
  case (MediaReply flt chat f k rt rc)
  show ?thesis unfolding MediaReply apply_operation.simps
  proof (rule handle_media_message_result [of flt chat f k rt rc d])
    assume "snd (handle_media_message flt chat f k rt rc d) = d"
    then show "grows task_changes_to (tasks d) (tasks (snd (handle_media_message flt chat f k rt rc d)))"
      by (simp add: grows_refl task_changes_to_refl)
  next
    fix tid
    assume "mark_and_recount (\<lambda>i. flt (i + 4)) ''completed'' tid chat
                 (insert_response_media tid chat f k d) =
                 Some (snd (handle_media_message flt chat f k rt rc d))"
    from mark_grows_tasks [OF this]
    show "grows task_changes_to (tasks d) (tasks (snd (handle_media_message flt chat f k rt rc d)))"
      by simp
  qed
next
  case (UpdateTaskStatus flt tid chat s)
  show ?thesis unfolding UpdateTaskStatus apply_operation.simps
    by (rule update_task_status_result [of flt tid chat s d])
       (simp_all add: grows_refl task_changes_to_refl mark_grows_tasks)
next
  case (CreateTask flt now task_text user_id)
  from create_task_result [of flt now task_text user_id d]
  show ?thesis unfolding CreateTask apply_operation.simps
    by (auto intro: grows_same grows_snoc task_changes_to_refl)
next
  case (AddTaskMedia fails t f k)
  show ?thesis unfolding AddTaskMedia apply_operation.simps
    by (simp add: add_task_media_result grows_refl task_changes_to_refl)
next
  case (AddTaskRecipient fails t c g)
  from add_task_recipient_result [of fails t c g d]
  show ?thesis unfolding AddTaskRecipient apply_operation.simps
    by (auto intro: grows_same task_changes_to_refl)
next
  case (GetActiveTasks fails)
  show ?thesis unfolding GetActiveTasks apply_operation.simps
    by (simp add: get_active_tasks_result grows_refl task_changes_to_refl)
qed


lemma step_recipients_effect:
  obtains (same) "task_recipients (apply_operation op d) = task_recipients d"
  | (marked) flt s tid chat d0 where
      "task_recipients d0 = task_recipients d"
      "mark_and_recount flt s tid chat d0 = Some (apply_operation op d)"
      "default_status op \<Longrightarrow> s = ''completed''"
      "s = ''completed'' \<or> (\<exists>row rows. select_pending_recipient tid chat d = Inr (row # rows))"
  | (added) t c g where
      "c = None \<or> \<not> list_ex (\<lambda>tr. tr_task_id tr = t \<and> tr_chat_id tr = c) (task_recipients d)"
      "task_recipients (apply_operation op d) =
         task_recipients d @ [\<lparr>tr_task_id = t, tr_chat_id = c, tr_group_id = g,
                                tr_status = ''pending''\<rparr>]"
proof (cases op)
  case (TextReply flt chat original)
  show ?thesis
  proof (rule handle_message_result [of flt chat original d])
    assume "snd (handle_message flt chat original d) = d"
    then show ?thesis using same TextReply by simp
  next
    fix tid
    assume "mark_and_recount (\<lambda>i. flt (i + 4)) ''completed'' tid chat d =
                 Some (snd (handle_message flt chat original d))"
    then show ?thesis using marked [of d "\<lambda>i. flt (i + 4)" "''completed''" tid chat] TextReply
      by simp
  qed
next
  case (MediaReply flt chat f k rt rc)
  show ?thesis
  proof (rule handle_media_message_result [of flt chat f k rt rc d])
    assume "snd (handle_media_message flt chat f k rt rc d) = d"
    then show ?thesis using same MediaReply by simp
  next
    fix tid
    assume "mark_and_recount (\<lambda>i. flt (i + 4)) ''completed'' tid chat
                 (insert_response_media tid chat f k d) =
                 Some (snd (handle_media_message flt chat f k rt rc d))"
    then show ?thesis
      using marked [of "insert_response_media tid chat f k d" "\<lambda>i. flt (i + 4)" "''completed''"
          tid chat] MediaReply
      by simp
  qed
next
  case (UpdateTaskStatus flt tid chat s)
  show ?thesis
  proof (rule update_task_status_result [of flt tid chat s d])
    assume "snd (update_task_status flt tid chat s d) = d"
    then show ?thesis using same UpdateTaskStatus by simp
  next
    fix row rows
    assume "select_pending_recipient tid chat d = Inr (row # rows)"
      and "mark_and_recount (\<lambda>i. flt (i + 2)) s tid chat d =
             Some (snd (update_task_status flt tid chat s d))"
    then show ?thesis
      using marked [of d "\<lambda>i. flt (i + 2)" s tid chat] UpdateTaskStatus
      by simp
  qed
next
  case (CreateTask flt now task_text user_id)
  from create_task_result [of flt now task_text user_id d]
  show ?thesis using same CreateTask by auto
next
  case (AddTaskMedia fails t f k)
  show ?thesis using same AddTaskMedia by (simp add: add_task_media_result)
next
  case (AddTaskRecipient fails t c g)
  from add_task_recipient_result [of fails t c g d]
  show ?thesis
  proof
    assume "snd (add_task_recipient fails t c g d) = d"
    then show ?thesis using same AddTaskRecipient by simp
  next
    assume "(c = None \<or> \<not> list_ex (\<lambda>tr. tr_task_id tr = t \<and> tr_chat_id tr = c) (task_recipients d)) \<and>
      tasks (snd (add_task_recipient fails t c g d)) = tasks d \<and>
      task_recipients (snd (add_task_recipient fails t c g d)) =
        task_recipients d @ [\<lparr>tr_task_id = t, tr_chat_id = c, tr_group_id = g,
                             tr_status = ''pending''\<rparr>]"
    then show ?thesis using added [of c t g] AddTaskRecipient by simp
  qed
next
  case (GetActiveTasks fails)
  show ?thesis using same GetActiveTasks by (simp add: get_active_tasks_result)
qed


lemma recipients_pk_cong:
  "task_recipients d1 = task_recipients d2 \<Longrightarrow> recipients_pk d1 = recipients_pk d2"
  by (simp add: recipients_pk_def)

lemma step_default:
  assumes "default_status op"
  shows "grows recipient_changes_to (task_recipients d) (task_recipients (apply_operation op d))"
proof (cases rule: step_recipients_effect [of op d])
  case same
  then show ?thesis by (simp add: grows_refl recipient_changes_to_refl)
next
  case (marked flt s tid chat d0)
  from marked(3) [OF assms] marked(2)
  have "mark_and_recount flt ''completed'' tid chat d0 = Some (apply_operation op d)" by simp
  from mark_grows_default [OF this] marked(1) show ?thesis by simp
next
  case (added t c g)
  then show ?thesis by (simp add: grows_append grows_refl recipient_changes_to_refl)
qed

lemma pending_row_unique:
  assumes pk: "recipients_pk d"
    and sel: "select_pending_recipient tid chat d = Inr (row # rows)"
    and r: "r \<in> set (task_recipients d)" "tr_task_id r = tid" "tr_chat_id r = Some chat"
  shows "tr_status r \<noteq> ''completed''"
proof -
  from select_pending_recipient_memD [OF sel, of row] obtain tr0 where
      tr0: "tr0 \<in> set (task_recipients d)" "tr_task_id tr0 = tid" "tr_chat_id tr0 = Some chat"
        "tr_status tr0 \<noteq> ''completed''"
    by auto
  have "r = tr0"
    by (rule pk_unique [OF pk [unfolded recipients_pk_def] r(1) tr0(1)])
       (simp_all add: r tr0)
  with tr0(4) show ?thesis by simp
qed

lemma step_kept:
  assumes pk: "recipients_pk d"
  shows "grows recipient_kept (task_recipients d) (task_recipients (apply_operation op d))"
proof (cases rule: step_recipients_effect [of op d])
  case same
  then show ?thesis by (simp add: grows_refl recipient_kept_refl)
next
  case (marked flt s tid chat d0)
  have "s = ''completed'' \<or> (\<forall>r \<in> set (task_recipients d0).
           tr_task_id r = tid \<and> tr_chat_id r = Some chat \<longrightarrow> tr_status r \<noteq> ''completed'')"
  proof (cases "s = ''completed''")
    case True
    then show ?thesis by simp
  next
    case False
    with marked(4) obtain row rows where
        sel: "select_pending_recipient tid chat d = Inr (row # rows)" by blast
    show ?thesis
      using pending_row_unique [OF pk sel] marked(1) by simp
  qed
  from mark_grows_kept [OF marked(2) this] marked(1) show ?thesis by simp
next
  case (added t c g)
  then show ?thesis by (simp add: grows_append grows_refl recipient_kept_refl)
qed

lemma step_pk:
  assumes pk: "recipients_pk d"
  shows "recipients_pk (apply_operation op d)"
proof (cases rule: step_recipients_effect [of op d])
  case same
  with pk show ?thesis by (simp add: recipients_pk_def)
next
  case (marked flt s tid chat d0)
  from pk marked(1) have "recipients_pk d0" by (simp add: recipients_pk_def)
  from mark_pk [OF marked(2) this] show ?thesis .
next
  case (added t c g)
  show ?thesis
  proof (cases c)
    case None
    with added(2) pk show ?thesis by (simp add: recipients_pk_def)
  next
    case (Some chat)
    with added(1) have no: "\<not> list_ex (\<lambda>tr. tr_task_id tr = t \<and> tr_chat_id tr = Some chat)
        (task_recipients d)" by simp
    have "(t, Some chat) \<notin>
        set [(tr_task_id tr, tr_chat_id tr). tr \<leftarrow> task_recipients d, tr_chat_id tr \<noteq> None]"
    proof
      assume "(t, Some chat) \<in>
        set [(tr_task_id tr, tr_chat_id tr). tr \<leftarrow> task_recipients d, tr_chat_id tr \<noteq> None]"
      from keys_mem_ex [OF this] no show False by (auto simp: list_ex_iff)
    qed
    with added(2) pk Some show ?thesis by (simp add: recipients_pk_def)
  qed
qed


lemma run_Cons: "run (op # ops) d = run ops (apply_operation op d)"
  by (simp add: run_def)

lemma run_tasks: "grows task_changes_to (tasks d) (tasks (run ops d))"
proof (induction ops arbitrary: d)
  case Nil
  show ?case by (simp add: run_def grows_refl task_changes_to_refl)
next
  case (Cons op ops)
  show ?case unfolding run_Cons
    by (rule grows_trans [OF task_changes_to_trans step_tasks Cons.IH])
qed

lemma run_default:
  "list_all default_status ops \<Longrightarrow>
   grows recipient_changes_to (task_recipients d) (task_recipients (run ops d))"
proof (induction ops arbitrary: d)
  case Nil
  show ?case by (simp add: run_def grows_refl recipient_changes_to_refl)
next
  case (Cons op ops)
  then have a: "default_status op" and b: "list_all default_status ops" by simp_all
  show ?case unfolding run_Cons
    by (rule grows_trans [OF recipient_changes_to_trans step_default [OF a] Cons.IH [OF b]])
qed

lemma run_kept:
  "recipients_pk d \<Longrightarrow> grows recipient_kept (task_recipients d) (task_recipients (run ops d))"
proof (induction ops arbitrary: d)
  case Nil
  show ?case by (simp add: run_def grows_refl recipient_kept_refl)
next
  case (Cons op ops)
  show ?case unfolding run_Cons
    by (rule grows_trans [OF recipient_kept_trans step_kept [OF Cons.prems]
          Cons.IH [OF step_pk [OF Cons.prems]]])
qed

lemmas run_eval = run_def reopen_attempt_def reply_eval uts_eval announcement_def
  create_task_def execute_query_def insert_task_def select_last_insert_rowid_def
  add_task_recipient_def insert_task_recipient_def recipients_pk_def

lemma other_status_is_stored:
  "map tr_status (task_recipients (run [UpdateTaskStatus no_fault 1 20 ''paused''] store_with_id)) =
     [''completed'', ''paused'']"
  by (simp add: run_eval)

text \<open>
  \<^bold>\<open>C7.\<close> Statuses only move forward. For every store that satisfies the primary key of
  \<open>task_recipients\<close> and every sequence of operations (text and media replies,
  \<open>update_task_status\<close> with any status argument, \<open>create_task\<close>, \<open>add_task_media\<close>,
  \<open>add_task_recipient\<close>, \<open>get_active_tasks\<close>, each with any storage faults):
  a recipient row that is \<open>'completed'\<close> is still there, at the same position and unchanged,
  after the run; so is a task row that is \<open>'completed'\<close>; every task row is after the run
  either unchanged or the same row with status \<open>'completed'\<close>; and when
  \<open>update_task_status\<close> is only called with its default status \<open>'completed'\<close>, every
  recipient row is after the run either unchanged or the same row with status
  \<open>'completed'\<close>.
\<close>

theorem completed_is_final:
  assumes "recipients_pk d"
  shows "(\<forall>i < length (task_recipients d).
            tr_status (task_recipients d ! i) = ''completed'' \<longrightarrow>
            i < length (task_recipients (run ops d)) \<and>
            task_recipients (run ops d) ! i = task_recipients d ! i) \<and>
         (\<forall>i < length (tasks d).
            t_status (tasks d ! i) = ''completed'' \<longrightarrow>
            i < length (tasks (run ops d)) \<and> tasks (run ops d) ! i = tasks d ! i) \<and>
         (\<forall>i < length (tasks d).
            tasks (run ops d) ! i = tasks d ! i \<or>
            tasks (run ops d) ! i = (tasks d ! i)\<lparr>t_status := ''completed''\<rparr>) \<and>
         (list_all default_status ops \<longrightarrow>
            (\<forall>i < length (task_recipients d).
               task_recipients (run ops d) ! i = task_recipients d ! i \<or>
               task_recipients (run ops d) ! i =
                 (task_recipients d ! i)\<lparr>tr_status := ''completed''\<rparr>))"
proof (intro conjI allI impI)
  fix i
  assume i: "i < length (task_recipients d)"
    and c: "tr_status (task_recipients d ! i) = ''completed''"
  from run_kept [OF assms, of ops] i
  have "i < length (task_recipients (run ops d))"
    and "recipient_kept (task_recipients d ! i) (task_recipients (run ops d) ! i)"
    by (simp_all add: grows_def)
  with c show "i < length (task_recipients (run ops d))"
    and "task_recipients (run ops d) ! i = task_recipients d ! i"
    by (simp_all add: recipient_kept_def)
next
  fix i
  assume i: "i < length (tasks d)" and c: "t_status (tasks d ! i) = ''completed''"
  from run_tasks [of d ops] i
  have l: "i < length (tasks (run ops d))"
    and k: "task_changes_to (tasks d ! i) (tasks (run ops d) ! i)"
    by (simp_all add: grows_def)
  from l show "i < length (tasks (run ops d))" .
  from k c show "tasks (run ops d) ! i = tasks d ! i"
    by (auto simp: task_changes_to_def)
next
  fix i
  assume i: "i < length (tasks d)"
  from run_tasks [of d ops] i
  have "task_changes_to (tasks d ! i) (tasks (run ops d) ! i)"
    by (simp add: grows_def)
  then show "tasks (run ops d) ! i = tasks d ! i \<or>
            tasks (run ops d) ! i = (tasks d ! i)\<lparr>t_status := ''completed''\<rparr>"
    by (simp add: task_changes_to_def)
next
  fix i
  assume "list_all default_status ops" and i: "i < length (task_recipients d)"
  from run_default [OF this(1), of d] i
  have "recipient_changes_to (task_recipients d ! i) (task_recipients (run ops d) ! i)"
    by (simp add: grows_def)
  then show "task_recipients (run ops d) ! i = task_recipients d ! i \<or>
               task_recipients (run ops d) ! i =
                 (task_recipients d ! i)\<lparr>tr_status := ''completed''\<rparr>"
    by (simp add: recipient_changes_to_def)
qed

theorem completed_is_final_witness:
  "recipients_pk store_with_id \<and>
   map tr_status (task_recipients store_with_id) = [''completed'', ''pending''] \<and>
   map t_status (tasks store_with_id) = [''active''] \<and>
   map tr_status (task_recipients (run reopen_attempt store_with_id)) =
     [''completed'', ''completed''] \<and>
   map t_status (tasks (run reopen_attempt store_with_id)) = [''completed'', ''active''] \<and>
   task_recipients (run reopen_attempt store_with_id) ! 0 = task_recipients store_with_id ! 0 \<and>
   tasks (run reopen_attempt store_with_id) ! 0 =
     (tasks store_with_id ! 0)\<lparr>t_status := ''completed''\<rparr> \<and>
   list_all default_status [TextReply no_fault 20 (Some announcement)] \<and>
   task_recipients (run [TextReply no_fault 20 (Some announcement)] store_with_id) ! 1 =
     (task_recipients store_with_id ! 1)\<lparr>tr_status := ''completed''\<rparr>"
proof -
  have pk: "recipients_pk store_with_id"
    by (simp add: run_eval)
  have a: "map tr_status (task_recipients store_with_id) = [''completed'', ''pending'']"
    by (simp add: run_eval)
  have b: "map t_status (tasks store_with_id) = [''active'']"
    by (simp add: run_eval)
  have c: "map tr_status (task_recipients (run reopen_attempt store_with_id)) =
     [''completed'', ''completed'']"
    by (simp add: run_eval)
  have e: "map t_status (tasks (run reopen_attempt store_with_id)) = [''completed'', ''active'']"
    by (simp add: run_eval)
  have l: "0 < length (task_recipients store_with_id)" "0 < length (tasks store_with_id)"
    "1 < length (task_recipients store_with_id)"
    by (simp_all add: run_eval)
  have s0: "tr_status (task_recipients store_with_id ! 0) = ''completed''"
    by (simp add: run_eval)
  note th = completed_is_final [OF pk, of reopen_attempt]
  from th [THEN conjunct1] l(1) s0
  have r0: "task_recipients (run reopen_attempt store_with_id) ! 0 =
      task_recipients store_with_id ! 0"
    by blast
  from th [THEN conjunct2, THEN conjunct2, THEN conjunct1] l(2)
  have "tasks (run reopen_attempt store_with_id) ! 0 = tasks store_with_id ! 0 \<or>
      tasks (run reopen_attempt store_with_id) ! 0 =
        (tasks store_with_id ! 0)\<lparr>t_status := ''completed''\<rparr>"
    by blast
  moreover have "t_status (tasks (run reopen_attempt store_with_id) ! 0) \<noteq>
      t_status (tasks store_with_id ! 0)"
    by (simp add: run_eval)
  ultimately have t0: "tasks (run reopen_attempt store_with_id) ! 0 =
      (tasks store_with_id ! 0)\<lparr>t_status := ''completed''\<rparr>"
    by auto
  have ds: "list_all default_status [TextReply no_fault 20 (Some announcement)]"
    by simp
  from completed_is_final [OF pk, of "[TextReply no_fault 20 (Some announcement)]",
      THEN conjunct2, THEN conjunct2, THEN conjunct2] ds l(3)
  have "task_recipients (run [TextReply no_fault 20 (Some announcement)] store_with_id) ! 1 =
        task_recipients store_with_id ! 1 \<or>
      task_recipients (run [TextReply no_fault 20 (Some announcement)] store_with_id) ! 1 =
        (task_recipients store_with_id ! 1)\<lparr>tr_status := ''completed''\<rparr>"
    by blast
  moreover have "tr_status (task_recipients
        (run [TextReply no_fault 20 (Some announcement)] store_with_id) ! 1) \<noteq>
      tr_status (task_recipients store_with_id ! 1)"
    by (simp add: run_eval)
  ultimately have r1: "task_recipients
        (run [TextReply no_fault 20 (Some announcement)] store_with_id) ! 1 =
      (task_recipients store_with_id ! 1)\<lparr>tr_status := ''completed''\<rparr>"
    by auto
  from pk a b c e r0 t0 ds r1 show ?thesis by (intro conjI)
qed


end
